theory Spec2Isabelle
  imports Main
begin

section \<open>Python values\<close>

text \<open>
  A Python \<open>str\<close> is a sequence of Unicode code points, and \<open>len\<close> counts code points;
  a \<open>bytes\<close> object is a sequence of octets, each a number below 256.
\<close>

type_synonym pystr = "nat list"
type_synonym bytes = "nat list"

definition py_str :: "string \<Rightarrow> pystr" where
  "py_str s = map of_char s"

text \<open>
  The objects that travel through the handler: \<open>None\<close>, strings, the chat messages of the
  model SDK (content and author), lists and dictionaries with string keys.
\<close>

datatype pyobj =
    PyNone
  | PyStr pystr
  | ChatMessage pystr pystr
  | PyList "pyobj list"
  | PyDict "(pystr \<times> pyobj) list"

text \<open>\<open>str.strip(chars)\<close>: drops the leading and the trailing characters that are in \<open>chars\<close>.\<close>

definition py_strip :: "pystr \<Rightarrow> pystr \<Rightarrow> pystr" where
  "py_strip chars s =
     rev (dropWhile (\<lambda>c. c \<in> set chars) (rev (dropWhile (\<lambda>c. c \<in> set chars) s)))"

text \<open>An f-string field \<open>{x}\<close> where \<open>x\<close> is a string or \<open>None\<close>.\<close>

definition py_format :: "pystr option \<Rightarrow> pystr" where
  "py_format x = (case x of None \<Rightarrow> py_str ''None'' | Some s \<Rightarrow> s)"

text \<open>\<open>d.get(k)\<close> on the event dictionary: \<open>None\<close> for a missing key and for a null value.\<close>

type_synonym payload = "string \<rightharpoonup> pystr option"

definition dict_get :: "payload \<Rightarrow> string \<Rightarrow> pystr option" where
  "dict_get d k = (case d k of None \<Rightarrow> None | Some v \<Rightarrow> v)"

section \<open>Collaborators\<close>

record chat_session =
  chat_context :: pystr
  chat_examples :: "(pystr \<times> pystr) list"
  message_history :: pyobj

record response =
  response_text :: pystr
  is_blocked :: bool

text \<open>Every call that leaves the process, with its arguments.\<close>

datatype call =
    DownloadBlob pystr pystr
  | BlobExists pystr pystr
  | DownloadAsBytes pystr pystr
  | SendMessage chat_session "pystr option"
  | ChatPostMessage "pystr option" "pystr option" pystr
  | StoreHistoricalChat pystr pyobj pystr pystr
  | GetKeyword "pystr option"
  | SendLog "pystr option" "pystr option" pystr pystr

datatype exn =
    Raised call
  | NotFound
  | UnpicklingError
  | KeyError
  | TypeError

text \<open>\<open>obj[key]\<close> with a string key: only a dictionary can be subscripted so.\<close>

fun py_getitem :: "pyobj \<Rightarrow> pystr \<Rightarrow> exn + pyobj" where
  "py_getitem (PyDict kvs) k = (case map_of kvs k of None \<Rightarrow> Inl KeyError | Some v \<Rightarrow> Inr v)"
| "py_getitem _ k = Inl TypeError"

text \<open>
  What the outside world does during the handling of one event: which calls raise, how
  \<open>pickle\<close> encodes and decodes, which few-shot examples were loaded at start-up, what the
  chat model answers (the response and the session's \<open>_message_history\<close> after the call)
  and which keyword the text model derives. The generation parameters are constants of
  the module and belong to what the models answer.

  \<open>remove_markdown\<close>. Modelled from the spec: \<open>modules/utils.py\<close> is not part of the
  sources at hand; the sanitizer is a pure function from text to text with no failure mode.
\<close>

record env =
  raises :: "call \<Rightarrow> bool"
  pickle_dumps :: "pyobj \<Rightarrow> bytes"
  pickle_loads :: "bytes \<Rightarrow> exn + pyobj"
  loaded_examples :: "(pystr \<times> pystr) list"
  send_message :: "chat_session \<Rightarrow> pystr option \<Rightarrow> response \<times> pyobj"
  remove_markdown :: "pystr \<Rightarrow> pystr"
  get_keyword :: "pystr option \<Rightarrow> pystr"

record slack_message =
  msg_channel :: "pystr option"
  msg_thread_ts :: "pystr option"
  msg_text :: pystr

record log_entry =
  log_user_id :: "pystr option"
  log_prompt :: "pystr option"
  log_response :: pystr
  log_keyword :: pystr

text \<open>
  The state outside the process: the blobs of the object store by bucket and name, the
  messages posted to the platform, the entries of the audit log, and every call made so
  far, in order, whether it returned or raised. A call that raises is recorded as made and
  changes nothing else.
\<close>

record world =
  gcs :: "pystr \<times> pystr \<rightharpoonup> bytes"
  slack :: "slack_message list"
  cloud_log :: "log_entry list"
  calls :: "call list"

definition call_made :: "world \<Rightarrow> call \<Rightarrow> world" where
  "call_made w c = w\<lparr>calls := calls w @ [c]\<rparr>"

section \<open>Constants of the module\<close>

definition HISTORICAL_CHAT_BUCKET_NAME :: pystr where
  "HISTORICAL_CHAT_BUCKET_NAME = py_str ''historical-chat-object''"

definition RESPONSE_STYLE :: pystr where
  "RESPONSE_STYLE = []"

text \<open>The notice sent in place of a blocked or empty answer (82 code points).\<close>

definition policy_notice :: pystr where
  "policy_notice =
     [20837, 21147, 12414, 12383, 12399, 20986, 21147, 12364, 32, 71, 111, 111, 103, 108,
      101, 32, 12398, 12509, 12522, 12471, 12540, 12395, 36949, 21453, 12375, 12390, 12356,
      12427, 21487, 33021, 24615, 12364, 12354, 12427, 12383, 12417, 12289, 20986, 21147,
      12364, 12502, 12525, 12483, 12463, 12373, 12428, 12390, 12356, 12414, 12377, 12290,
      12503, 12525, 12531, 12503, 12488, 12398, 35328, 12356, 25563, 12360, 12420, 12289,
      12497, 12521, 12513, 12540, 12479, 35373, 23450, 12398, 35519, 25972, 12434, 35430,
      12375, 12390, 12367, 12384, 12373, 12356, 12290]"

section \<open>The helpers of \<open>gc_utils\<close>\<close>

text \<open>
  Modelled from the spec: \<open>modules/gc_utils.py\<close> is not part of the sources at hand.
  \<open>download_blob\<close> gives a handle on the blob of that name in that bucket and transfers no
  content; the handler then asks the handle whether the blob exists and downloads it.
\<close>

definition download_blob :: "pystr \<Rightarrow> pystr \<Rightarrow> pystr \<times> pystr" where
  "download_blob bucket_name blob_name = (bucket_name, blob_name)"

text \<open>
  Modelled from the spec: \<open>store_historical_chat_to_gcs\<close> serializes the record
  \<open>{metadata, historical_chat}\<close> into one blob and overwrites the blob of that name.
\<close>

definition conversation_record :: "pystr \<Rightarrow> pyobj \<Rightarrow> pyobj" where
  "conversation_record metadata history =
     PyDict [(py_str ''metadata'', PyStr metadata), (py_str ''historical_chat'', history)]"

definition store_historical_chat_to_gcs ::
  "env \<Rightarrow> world \<Rightarrow> pystr \<Rightarrow> pyobj \<Rightarrow> pystr \<Rightarrow> pystr \<Rightarrow> world" where
  "store_historical_chat_to_gcs env w metadata history bucket_name blob_name =
     w\<lparr>gcs := (gcs w)((bucket_name, blob_name) \<mapsto>
                 pickle_dumps env (conversation_record metadata history))\<rparr>"

text \<open>
  Modelled from the spec: \<open>send_log\<close> hands the entry \<open>{user_id, prompt, response, keyword}\<close>
  to the log sink.
\<close>

definition send_log ::
  "world \<Rightarrow> pystr option \<Rightarrow> pystr option \<Rightarrow> pystr \<Rightarrow> pystr \<Rightarrow> world" where
  "send_log w user_id prompt payload keyword =
     w\<lparr>cloud_log := cloud_log w @
         [\<lparr>log_user_id = user_id, log_prompt = prompt,
           log_response = payload, log_keyword = keyword\<rparr>]\<rparr>"

section \<open>The handler\<close>

definition historical_chat_blob_name :: "pystr option \<Rightarrow> pystr" where
  "historical_chat_blob_name conversation_thread =
     py_format conversation_thread @ py_str ''.pkl''"

definition is_empty_response :: "response \<Rightarrow> bool" where
  "is_empty_response r = (length (py_strip (py_str '' \<newline>'') (response_text r)) < 1)"

text \<open>The \<open>payload\<close> of the answer: the notice for a blocked or empty response.\<close>

definition payload_text :: "env \<Rightarrow> response \<Rightarrow> pystr" where
  "payload_text env response =
     (if is_blocked response \<or> is_empty_response response then policy_notice
      else remove_markdown env (response_text response))"

text \<open>\<open>chat_model.start_chat\<close> builds the session; nothing leaves the process yet.\<close>

definition start_chat :: "env \<Rightarrow> pystr \<Rightarrow> pyobj \<Rightarrow> chat_session" where
  "start_chat env this_prompt_context history =
     \<lparr>chat_context = this_prompt_context, chat_examples = loaded_examples env,
      message_history = history\<rparr>"

text \<open>
  \<open>generate_response\<close>, second part: with the message history in hand, start the chat
  session, send the prompt, post the answer or the notice, store the session's history and,
  in a new thread, log the keyword.
\<close>

definition answer_and_store ::
  "env \<Rightarrow> world \<Rightarrow> bool \<Rightarrow> pyobj \<Rightarrow> pystr \<Rightarrow> pystr option \<Rightarrow> pystr option
     \<Rightarrow> pystr option \<Rightarrow> pystr option \<Rightarrow> (exn + unit) \<times> world" where
  "answer_and_store env w3 is_existing_thread history blob_name ts user_id channel_id prompt =
    (let chat = start_chat env RESPONSE_STYLE history;
         c4 = SendMessage chat prompt;
         w4 = call_made w3 c4
     in if raises env c4 then (Inl (Raised c4), w4) else
     let response = fst (send_message env chat prompt);
         chat_message_history = snd (send_message env chat prompt);
         payload = payload_text env response;
         c5 = ChatPostMessage channel_id ts payload;
         w5 = call_made w4 c5
     in if raises env c5 then (Inl (Raised c5), w5) else
     let w5' = w5\<lparr>slack := slack w5 @
                  [\<lparr>msg_channel = channel_id, msg_thread_ts = ts, msg_text = payload\<rparr>]\<rparr>;
         c6 = StoreHistoricalChat (py_str ''dummy_metadata_chat'') chat_message_history
                HISTORICAL_CHAT_BUCKET_NAME blob_name;
         w6 = call_made w5' c6
     in if raises env c6 then (Inl (Raised c6), w6) else
     let w6' = store_historical_chat_to_gcs env w6 (py_str ''dummy_metadata_chat'')
                 chat_message_history HISTORICAL_CHAT_BUCKET_NAME blob_name
     in if \<not> is_existing_thread then
          (let c7 = GetKeyword prompt;
               w7 = call_made w6' c7
           in if raises env c7 then (Inl (Raised c7), w7) else
           let keyword = get_keyword env prompt;
               c8 = SendLog user_id prompt payload keyword;
               w8 = call_made w7 c8
           in if raises env c8 then (Inl (Raised c8), w8) else
           (Inr (), send_log w8 user_id prompt payload keyword))
        else (Inr (), w6'))"

text \<open>
  \<open>generate_response\<close>, first part: name the blob of the thread, ask whether it exists and,
  if so, download and unpickle it and take its \<open>historical_chat\<close>; else the history is \<open>[]\<close>.
\<close>

definition generate_response ::
  "env \<Rightarrow> world \<Rightarrow> pystr option \<Rightarrow> pystr option \<Rightarrow> pystr option \<Rightarrow> pystr option
     \<Rightarrow> pystr option \<Rightarrow> (exn + unit) \<times> world" where
  "generate_response env w ts conversation_thread user_id channel_id prompt =
    (let blob_name = historical_chat_blob_name conversation_thread;
         c1 = DownloadBlob HISTORICAL_CHAT_BUCKET_NAME blob_name;
         w1 = call_made w c1
     in if raises env c1 then (Inl (Raised c1), w1) else
     let historical_chat_blob = download_blob HISTORICAL_CHAT_BUCKET_NAME blob_name;
         c2 = BlobExists (fst historical_chat_blob) (snd historical_chat_blob);
         w2 = call_made w1 c2
     in if raises env c2 then (Inl (Raised c2), w2) else
     let is_existing_thread = (gcs w2 historical_chat_blob \<noteq> None)
     in if is_existing_thread then
          (let c3 = DownloadAsBytes (fst historical_chat_blob) (snd historical_chat_blob);
               w3 = call_made w2 c3
           in if raises env c3 then (Inl (Raised c3), w3) else
           case gcs w3 historical_chat_blob of
             None \<Rightarrow> (Inl NotFound, w3)
           | Some serialized_historical_chat \<Rightarrow>
               (case pickle_loads env serialized_historical_chat of
                  Inl e \<Rightarrow> (Inl e, w3)
                | Inr historical_chat \<Rightarrow>
                    (case py_getitem historical_chat (py_str ''historical_chat'') of
                       Inl e \<Rightarrow> (Inl e, w3)
                     | Inr history \<Rightarrow>
                         answer_and_store env w3 is_existing_thread history blob_name
                           ts user_id channel_id prompt)))
        else answer_and_store env w2 is_existing_thread (PyList []) blob_name
               ts user_id channel_id prompt)"

text \<open>The thread of an event: \<open>ts if thread_ts is None else thread_ts\<close>.\<close>

definition conversation_thread :: "payload \<Rightarrow> pystr option" where
  "conversation_thread payload =
     (let ts = dict_get payload ''ts'';
          thread_ts = dict_get payload ''thread_ts''
      in if thread_ts = None then ts else thread_ts)"

definition handle_incoming_message :: "env \<Rightarrow> world \<Rightarrow> payload \<Rightarrow> (exn + unit) \<times> world" where
  "handle_incoming_message env w payload =
    (let channel_id = dict_get payload ''channel'';
         user_id = dict_get payload ''user'';
         prompt = dict_get payload ''text'';
         ts = dict_get payload ''ts''
     in generate_response env w ts (conversation_thread payload) user_id channel_id prompt)"


text \<open>
  Two events in flight at once. The handler of an event whose lookup finds no record is
  the two lookup calls (\<open>lookup_world\<close>) followed by the second part of \<open>generate_response\<close>
  with \<open>is_existing_thread = False\<close> and the history \<open>[]\<close> (\<open>answer_new_thread\<close>). In
  \<open>handle_overlapped\<close> the event \<open>b\<close> is handled in full between these two parts of the
  event \<open>a\<close>.
\<close>

definition lookup_world :: "payload \<Rightarrow> world \<Rightarrow> world" where
  "lookup_world payload w =
     (let blob_name = historical_chat_blob_name (conversation_thread payload)
      in call_made (call_made w (DownloadBlob HISTORICAL_CHAT_BUCKET_NAME blob_name))
           (BlobExists HISTORICAL_CHAT_BUCKET_NAME blob_name))"

definition answer_new_thread :: "env \<Rightarrow> payload \<Rightarrow> world \<Rightarrow> (exn + unit) \<times> world" where
  "answer_new_thread env payload w2 =
     answer_and_store env w2 False (PyList [])
       (historical_chat_blob_name (conversation_thread payload))
       (dict_get payload ''ts'') (dict_get payload ''user'') (dict_get payload ''channel'')
       (dict_get payload ''text'')"

definition handle_overlapped ::
  "env \<Rightarrow> payload \<Rightarrow> env \<Rightarrow> payload \<Rightarrow> world \<Rightarrow> (exn + unit) \<times> world" where
  "handle_overlapped env_a a env_b b w =
     answer_new_thread env_a a (snd (handle_incoming_message env_b (lookup_world a w) b))"

text \<open>The calls made between two states of the world.\<close>

definition new_calls :: "world \<Rightarrow> world \<Rightarrow> call list" where
  "new_calls w w' = drop (length (calls w)) (calls w')"

text \<open>
  The first part of \<open>generate_response\<close> comes out with the message history \<open>h\<close> after the
  calls \<open>pre\<close>: in a new thread the empty list after two calls, in an existing thread the
  \<open>historical_chat\<close> of the unpickled blob after three.
\<close>

definition loads_history :: "env \<Rightarrow> world \<Rightarrow> pystr option \<Rightarrow> call list \<Rightarrow> pyobj \<Rightarrow> bool" where
  "loads_history env w ct pre h =
     (let n = historical_chat_blob_name ct;
          c1 = DownloadBlob HISTORICAL_CHAT_BUCKET_NAME n;
          c2 = BlobExists HISTORICAL_CHAT_BUCKET_NAME n;
          c3 = DownloadAsBytes HISTORICAL_CHAT_BUCKET_NAME n
      in \<not> raises env c1 \<and> \<not> raises env c2 \<and>
         (case gcs w (HISTORICAL_CHAT_BUCKET_NAME, n) of
            None \<Rightarrow> pre = [c1, c2] \<and> h = PyList []
          | Some b \<Rightarrow>
              \<not> raises env c3 \<and> pre = [c1, c2, c3] \<and>
              (case pickle_loads env b of
                 Inl e \<Rightarrow> False
               | Inr r \<Rightarrow> py_getitem r (py_str ''historical_chat'') = Inr h)))"

section \<open>The words of the specification\<close>

text \<open>
  Trimming whitespace, as the specification says it: every leading and trailing character
  that Python's \<open>str.isspace\<close> accepts is dropped, as \<open>str.strip()\<close> without an argument does.
\<close>

definition spec_is_whitespace :: "nat \<Rightarrow> bool" where
  "spec_is_whitespace c \<longleftrightarrow>
     c \<in> {9, 10, 11, 12, 13, 28, 29, 30, 31, 32, 133, 160, 5760, 8192, 8193, 8194, 8195,
          8196, 8197, 8198, 8199, 8200, 8201, 8202, 8232, 8233, 8239, 8287, 12288}"

definition spec_trim_whitespace :: "pystr \<Rightarrow> pystr" where
  "spec_trim_whitespace s =
     rev (dropWhile spec_is_whitespace (rev (dropWhile spec_is_whitespace s)))"

section \<open>Kinds of calls\<close>

text \<open>
  The blob a storage call names; the post; the save; the audit branch and its first call.
\<close>

fun blob_of_call :: "call \<Rightarrow> (pystr \<times> pystr) option" where
  "blob_of_call (DownloadBlob b n) = Some (b, n)"
| "blob_of_call (BlobExists b n) = Some (b, n)"
| "blob_of_call (DownloadAsBytes b n) = Some (b, n)"
| "blob_of_call (StoreHistoricalChat md h b n) = Some (b, n)"
| "blob_of_call _ = None"


fun is_store_call :: "call \<Rightarrow> bool" where
  "is_store_call (StoreHistoricalChat md h b n) = True"
| "is_store_call _ = False"

fun is_audit_call :: "call \<Rightarrow> bool" where
  "is_audit_call (GetKeyword p) = True"
| "is_audit_call (SendLog u p t k) = True"
| "is_audit_call _ = False"


section \<open>A test double of the outside world\<close>

text \<open>
  A small self-delimiting encoding stands in for \<open>pickle\<close> in the scenarios: a tag octet
  for the kind of object, three octets for each code point, a full stop to close a string,
  a list or a dictionary.
\<close>

fun enc_str :: "pystr \<Rightarrow> bytes" where
  "enc_str [] = [46]"
| "enc_str (n # s) = 99 # n div 65536 # n div 256 mod 256 # n mod 256 # enc_str s"

fun toy_dumps :: "pyobj \<Rightarrow> bytes" where
  "toy_dumps PyNone = [78]"
| "toy_dumps (PyStr s) = 83 # enc_str s"
| "toy_dumps (ChatMessage c a) = 77 # enc_str c @ enc_str a"
| "toy_dumps (PyList xs) = 76 # concat (map toy_dumps xs) @ [46]"
| "toy_dumps (PyDict kvs) =
     68 # concat (map (\<lambda>kv. 107 # enc_str (fst kv) @ toy_dumps (snd kv)) kvs) @ [46]"

fun dec_str :: "bytes \<Rightarrow> (pystr \<times> bytes) option" where
  "dec_str [] = None"
| "dec_str (t # bs) =
     (if t = 46 then Some ([], bs)
      else if t = 99 then
        (case bs of
           b2 # b1 # b0 # rest \<Rightarrow>
             (case dec_str rest of
                None \<Rightarrow> None
              | Some (s, r) \<Rightarrow> Some ((b2 * 65536 + b1 * 256 + b0) # s, r))
         | _ \<Rightarrow> None)
      else None)"

text \<open>The decoder counts down a budget of steps; the length of the input is enough.\<close>

fun toy_parse :: "nat \<Rightarrow> bytes \<Rightarrow> (pyobj \<times> bytes) option"
and toy_parse_list :: "nat \<Rightarrow> bytes \<Rightarrow> (pyobj list \<times> bytes) option"
and toy_parse_items :: "nat \<Rightarrow> bytes \<Rightarrow> ((pystr \<times> pyobj) list \<times> bytes) option" where
  "toy_parse 0 bs = None"
| "toy_parse (Suc n) [] = None"
| "toy_parse (Suc n) (t # bs) =
     (if t = 78 then Some (PyNone, bs)
      else if t = 83 then
        (case dec_str bs of None \<Rightarrow> None | Some (s, r) \<Rightarrow> Some (PyStr s, r))
      else if t = 77 then
        (case dec_str bs of
           None \<Rightarrow> None
         | Some (c, r) \<Rightarrow>
             (case dec_str r of None \<Rightarrow> None | Some (a, r') \<Rightarrow> Some (ChatMessage c a, r')))
      else if t = 76 then
        (case toy_parse_list n bs of None \<Rightarrow> None | Some (xs, r) \<Rightarrow> Some (PyList xs, r))
      else if t = 68 then
        (case toy_parse_items n bs of None \<Rightarrow> None | Some (kvs, r) \<Rightarrow> Some (PyDict kvs, r))
      else None)"
| "toy_parse_list 0 bs = None"
| "toy_parse_list (Suc n) [] = None"
| "toy_parse_list (Suc n) (t # bs) =
     (if t = 46 then Some ([], bs)
      else (case toy_parse n (t # bs) of
              None \<Rightarrow> None
            | Some (x, r) \<Rightarrow>
                (case toy_parse_list n r of None \<Rightarrow> None | Some (xs, r') \<Rightarrow> Some (x # xs, r'))))"
| "toy_parse_items 0 bs = None"
| "toy_parse_items (Suc n) [] = None"
| "toy_parse_items (Suc n) (t # bs) =
     (if t = 46 then Some ([], bs)
      else if t = 107 then
        (case dec_str bs of
           None \<Rightarrow> None
         | Some (k, r) \<Rightarrow>
             (case toy_parse n r of
                None \<Rightarrow> None
              | Some (v, r') \<Rightarrow>
                  (case toy_parse_items n r' of
                     None \<Rightarrow> None
                   | Some (kvs, r'') \<Rightarrow> Some ((k, v) # kvs, r''))))
      else None)"

definition toy_loads :: "bytes \<Rightarrow> exn + pyobj" where
  "toy_loads bs =
     (case toy_parse (Suc (length bs)) bs of
        Some (x, []) \<Rightarrow> Inr x
      | _ \<Rightarrow> Inl UnpicklingError)"

text \<open>
  A chat model that always gives the same response and appends the prompt and its answer to
  the history of the session, as the SDK does.
\<close>

definition stub_send_message :: "response \<Rightarrow> chat_session \<Rightarrow> pystr option \<Rightarrow> response \<times> pyobj" where
  "stub_send_message reply chat prompt =
     (reply,
      case message_history chat of
        PyList ms \<Rightarrow>
          PyList (ms @ [ChatMessage (py_format prompt) (py_str ''user''),
                        ChatMessage (response_text reply) (py_str ''bot'')])
      | other \<Rightarrow> other)"

text \<open>
  An outside world where no call raises, the model answers \<open>reply\<close>, the keyword is always
  the same and the sanitizer drops the asterisks of markdown emphasis.
\<close>

definition stub_env :: "response \<Rightarrow> env" where
  "stub_env reply =
     \<lparr>raises = (\<lambda>c. False), pickle_dumps = toy_dumps, pickle_loads = toy_loads,
      loaded_examples = [], send_message = stub_send_message reply,
      remove_markdown = filter (\<lambda>c. c \<noteq> 42), get_keyword = (\<lambda>p. py_str ''greeting'')\<rparr>"

definition empty_world :: world where
  "empty_world = \<lparr>gcs = Map.empty, slack = [], cloud_log = [], calls = []\<rparr>"

text \<open>The two events of the scenarios of the specification, and three responses.\<close>

definition first_event :: payload where
  "first_event =
     [''channel'' \<mapsto> Some (py_str ''C1''), ''user'' \<mapsto> Some (py_str ''U1''),
      ''text'' \<mapsto> Some (py_str ''hello''), ''ts'' \<mapsto> Some (py_str ''100''),
      ''thread_ts'' \<mapsto> None]"

definition second_event :: payload where
  "second_event =
     [''channel'' \<mapsto> Some (py_str ''C1''), ''user'' \<mapsto> Some (py_str ''U1''),
      ''text'' \<mapsto> Some (py_str ''follow-up''), ''ts'' \<mapsto> Some (py_str ''101''),
      ''thread_ts'' \<mapsto> Some (py_str ''100'')]"

definition plain_reply :: response where
  "plain_reply = \<lparr>response_text = py_str ''Hi *there*'', is_blocked = False\<rparr>"

definition blocked_reply :: response where
  "blocked_reply = \<lparr>response_text = py_str ''raw text'', is_blocked = True\<rparr>"

definition tab_reply :: response where
  "tab_reply = \<lparr>response_text = [9], is_blocked = False\<rparr>"

definition blank_reply :: response where
  "blank_reply = \<lparr>response_text = [32, 10, 32], is_blocked = False\<rparr>"

text \<open>The first event handled in an empty world where the model gives \<open>reply\<close>.\<close>

definition first_run :: "response \<Rightarrow> (exn + unit) \<times> world" where
  "first_run reply = handle_incoming_message (stub_env reply) empty_world first_event"

text \<open>An outside world where the save raises and nothing else does.\<close>

definition store_fails_env :: env where
  "store_fails_env = (stub_env plain_reply)\<lparr>raises := is_store_call\<rparr>"



text \<open>The state after the first event of the scenario, and the history stored by then.\<close>

definition world_after_first :: world where
  "world_after_first =
     snd (handle_incoming_message (stub_env plain_reply) empty_world first_event)"

definition history_after_first :: pyobj where
  "history_after_first =
     PyList [ChatMessage (py_str ''hello'') (py_str ''user''),
             ChatMessage (py_str ''Hi *there*'') (py_str ''bot'')]"

section \<open>How a run unfolds\<close>

lemma call_made_sel [simp]:
  "calls (call_made w c) = calls w @ [c]"
  "gcs (call_made w c) = gcs w"
  "slack (call_made w c) = slack w"
  "cloud_log (call_made w c) = cloud_log w"
  by (simp_all add: call_made_def)

lemma store_sel [simp]:
  "calls (store_historical_chat_to_gcs env w md h b n) = calls w"
  "gcs (store_historical_chat_to_gcs env w md h b n) =
     (gcs w)((b, n) \<mapsto> pickle_dumps env (conversation_record md h))"
  "slack (store_historical_chat_to_gcs env w md h b n) = slack w"
  "cloud_log (store_historical_chat_to_gcs env w md h b n) = cloud_log w"
  by (simp_all add: store_historical_chat_to_gcs_def)

lemma send_log_sel [simp]:
  "calls (send_log w u p t k) = calls w"
  "gcs (send_log w u p t k) = gcs w"
  "slack (send_log w u p t k) = slack w"
  "cloud_log (send_log w u p t k) = cloud_log w @
     [\<lparr>log_user_id = u, log_prompt = p, log_response = t, log_keyword = k\<rparr>]"
  by (simp_all add: send_log_def)

lemma new_calls_self [simp]: "new_calls w w = []"
  by (simp add: new_calls_def)

lemma new_calls_call_made [simp]:
  "new_calls w (call_made w' c) =
     (if length (calls w) \<le> length (calls w') then new_calls w w' @ [c] else [])"
  by (simp add: new_calls_def)

text \<open>
  The first part of \<open>generate_response\<close> ends in one of six ways: one of the three storage
  calls raises, the blob cannot be read as a record, or the second part runs, with an empty
  history in a new thread and with the stored one in an existing thread.
\<close>

lemma generate_response_cases [case_names raised1 raised2 raised3 unreadable fresh resumed]:
  fixes env w ts ct u ch p
  defines "n \<equiv> historical_chat_blob_name ct"
  defines "c1 \<equiv> DownloadBlob HISTORICAL_CHAT_BUCKET_NAME n"
  defines "c2 \<equiv> BlobExists HISTORICAL_CHAT_BUCKET_NAME n"
  defines "c3 \<equiv> DownloadAsBytes HISTORICAL_CHAT_BUCKET_NAME n"
  assumes raised1: "raises env c1 \<Longrightarrow>
             generate_response env w ts ct u ch p = (Inl (Raised c1), call_made w c1) \<Longrightarrow> P"
      and raised2: "\<not> raises env c1 \<Longrightarrow> raises env c2 \<Longrightarrow>
             generate_response env w ts ct u ch p =
               (Inl (Raised c2), call_made (call_made w c1) c2) \<Longrightarrow> P"
      and raised3: "\<And>b. gcs w (HISTORICAL_CHAT_BUCKET_NAME, n) = Some b \<Longrightarrow>
             \<not> raises env c1 \<Longrightarrow> \<not> raises env c2 \<Longrightarrow> raises env c3 \<Longrightarrow>
             generate_response env w ts ct u ch p =
               (Inl (Raised c3), call_made (call_made (call_made w c1) c2) c3) \<Longrightarrow> P"
      and unreadable: "\<And>b e. gcs w (HISTORICAL_CHAT_BUCKET_NAME, n) = Some b \<Longrightarrow>
             \<not> raises env c1 \<Longrightarrow> \<not> raises env c2 \<Longrightarrow> \<not> raises env c3 \<Longrightarrow>
             pickle_loads env b = Inl e \<or>
               (\<exists>r. pickle_loads env b = Inr r \<and>
                    py_getitem r (py_str ''historical_chat'') = Inl e) \<Longrightarrow>
             generate_response env w ts ct u ch p =
               (Inl e, call_made (call_made (call_made w c1) c2) c3) \<Longrightarrow> P"
      and fresh: "gcs w (HISTORICAL_CHAT_BUCKET_NAME, n) = None \<Longrightarrow>
             \<not> raises env c1 \<Longrightarrow> \<not> raises env c2 \<Longrightarrow>
             generate_response env w ts ct u ch p =
               answer_and_store env (call_made (call_made w c1) c2) False (PyList []) n
                 ts u ch p \<Longrightarrow> P"
      and resumed: "\<And>b r h. gcs w (HISTORICAL_CHAT_BUCKET_NAME, n) = Some b \<Longrightarrow>
             pickle_loads env b = Inr r \<Longrightarrow>
             py_getitem r (py_str ''historical_chat'') = Inr h \<Longrightarrow>
             \<not> raises env c1 \<Longrightarrow> \<not> raises env c2 \<Longrightarrow> \<not> raises env c3 \<Longrightarrow>
             generate_response env w ts ct u ch p =
               answer_and_store env (call_made (call_made (call_made w c1) c2) c3) True h n
                 ts u ch p \<Longrightarrow> P"
  shows P
proof (cases "raises env c1")
  case True
  then show P
    by (intro raised1) (simp_all add: generate_response_def Let_def c1_def n_def)
next
  case n1: False
  show P
  proof (cases "raises env c2")
    case True
    with n1 show P
      by (intro raised2)
         (simp_all add: generate_response_def Let_def c1_def c2_def n_def download_blob_def)
  next
    case n2: False
    show P
    proof (cases "gcs w (HISTORICAL_CHAT_BUCKET_NAME, n)")
      case None
      with n1 n2 show P
        by (intro fresh)
           (simp_all add: generate_response_def Let_def c1_def c2_def n_def download_blob_def)
    next
      case (Some b)
      show P
      proof (cases "raises env c3")
        case True
        with n1 n2 Some show P
          by (intro raised3[of b])
             (simp_all add: generate_response_def Let_def c1_def c2_def c3_def n_def
                download_blob_def)
      next
        case n3: False
        show P
        proof (cases "pickle_loads env b")
          case (Inl e)
          with n1 n2 n3 Some show P
            by (intro unreadable[of b e])
               (simp_all add: generate_response_def Let_def c1_def c2_def c3_def n_def
                  download_blob_def)
        next
          case (Inr r)
          show P
          proof (cases "py_getitem r (py_str ''historical_chat'')")
            case (Inl e)
            with n1 n2 n3 Some Inr show P
              by (intro unreadable[of b e])
                 (simp_all add: generate_response_def Let_def c1_def c2_def c3_def n_def
                    download_blob_def)
          next
            case h: (Inr h)
            with n1 n2 n3 Some Inr show P
              by (intro resumed[of b r h])
                 (simp_all add: generate_response_def Let_def c1_def c2_def c3_def n_def
                    download_blob_def)
          qed
        qed
      qed
    qed
  qed
qed


lemma answer_and_store_cases
  [consumes 1, case_names raised4 raised5 raised6 raised7 raised8 logged answered]:
  fixes env w ex h n ts u ch p
  defines "chat \<equiv> start_chat env RESPONSE_STYLE h"
  defines "t \<equiv> payload_text env (fst (send_message env chat p))"
  defines "h' \<equiv> snd (send_message env chat p)"
  defines "c4 \<equiv> SendMessage chat p"
  defines "c5 \<equiv> ChatPostMessage ch ts t"
  defines "c6 \<equiv> StoreHistoricalChat (py_str ''dummy_metadata_chat'') h' HISTORICAL_CHAT_BUCKET_NAME n"
  defines "c7 \<equiv> GetKeyword p"
  defines "c8 \<equiv> SendLog u p t (get_keyword env p)"
  defines "m \<equiv> \<lparr>msg_channel = ch, msg_thread_ts = ts, msg_text = t\<rparr>"
  defines "g \<equiv> (gcs w)((HISTORICAL_CHAT_BUCKET_NAME, n) \<mapsto>
                 pickle_dumps env (conversation_record (py_str ''dummy_metadata_chat'') h'))"
  assumes run: "answer_and_store env w ex h n ts u ch p = (r, w')"
      and raised4: "raises env c4 \<Longrightarrow> r = Inl (Raised c4) \<Longrightarrow> calls w' = calls w @ [c4] \<Longrightarrow>
             gcs w' = gcs w \<Longrightarrow> slack w' = slack w \<Longrightarrow> cloud_log w' = cloud_log w \<Longrightarrow> P"
      and raised5: "\<not> raises env c4 \<Longrightarrow> raises env c5 \<Longrightarrow> r = Inl (Raised c5) \<Longrightarrow>
             calls w' = calls w @ [c4, c5] \<Longrightarrow>
             gcs w' = gcs w \<Longrightarrow> slack w' = slack w \<Longrightarrow> cloud_log w' = cloud_log w \<Longrightarrow> P"
      and raised6: "\<not> raises env c4 \<Longrightarrow> \<not> raises env c5 \<Longrightarrow> raises env c6 \<Longrightarrow>
             r = Inl (Raised c6) \<Longrightarrow> calls w' = calls w @ [c4, c5, c6] \<Longrightarrow>
             gcs w' = gcs w \<Longrightarrow> slack w' = slack w @ [m] \<Longrightarrow> cloud_log w' = cloud_log w \<Longrightarrow> P"
      and raised7: "\<not> ex \<Longrightarrow> \<not> raises env c4 \<Longrightarrow> \<not> raises env c5 \<Longrightarrow> \<not> raises env c6 \<Longrightarrow>
             raises env c7 \<Longrightarrow>
             r = Inl (Raised c7) \<Longrightarrow> calls w' = calls w @ [c4, c5, c6, c7] \<Longrightarrow>
             gcs w' = g \<Longrightarrow> slack w' = slack w @ [m] \<Longrightarrow> cloud_log w' = cloud_log w \<Longrightarrow> P"
      and raised8: "\<not> ex \<Longrightarrow> \<not> raises env c4 \<Longrightarrow> \<not> raises env c5 \<Longrightarrow> \<not> raises env c6 \<Longrightarrow>
             \<not> raises env c7 \<Longrightarrow> raises env c8 \<Longrightarrow>
             r = Inl (Raised c8) \<Longrightarrow> calls w' = calls w @ [c4, c5, c6, c7, c8] \<Longrightarrow>
             gcs w' = g \<Longrightarrow> slack w' = slack w @ [m] \<Longrightarrow> cloud_log w' = cloud_log w \<Longrightarrow> P"
      and logged: "\<not> ex \<Longrightarrow> \<not> raises env c4 \<Longrightarrow> \<not> raises env c5 \<Longrightarrow> \<not> raises env c6 \<Longrightarrow>
             \<not> raises env c7 \<Longrightarrow> \<not> raises env c8 \<Longrightarrow>
             r = Inr () \<Longrightarrow> calls w' = calls w @ [c4, c5, c6, c7, c8] \<Longrightarrow>
             gcs w' = g \<Longrightarrow> slack w' = slack w @ [m] \<Longrightarrow>
             cloud_log w' = cloud_log w @
               [\<lparr>log_user_id = u, log_prompt = p, log_response = t,
                 log_keyword = get_keyword env p\<rparr>] \<Longrightarrow> P"
      and answered: "ex \<Longrightarrow> \<not> raises env c4 \<Longrightarrow> \<not> raises env c5 \<Longrightarrow> \<not> raises env c6 \<Longrightarrow>
             r = Inr () \<Longrightarrow> calls w' = calls w @ [c4, c5, c6] \<Longrightarrow>
             gcs w' = g \<Longrightarrow> slack w' = slack w @ [m] \<Longrightarrow> cloud_log w' = cloud_log w \<Longrightarrow> P"
  shows P
proof -
  note defs = answer_and_store_def Let_def chat_def t_def h'_def c4_def c5_def c6_def c7_def
    c8_def m_def g_def
  consider (a) "raises env c4"
    | (b) "\<not> raises env c4" "raises env c5"
    | (c) "\<not> raises env c4" "\<not> raises env c5" "raises env c6"
    | (d) "\<not> raises env c4" "\<not> raises env c5" "\<not> raises env c6" "ex"
    | (e) "\<not> raises env c4" "\<not> raises env c5" "\<not> raises env c6" "\<not> ex" "raises env c7"
    | (f) "\<not> raises env c4" "\<not> raises env c5" "\<not> raises env c6" "\<not> ex" "\<not> raises env c7"
          "raises env c8"
    | (g) "\<not> raises env c4" "\<not> raises env c5" "\<not> raises env c6" "\<not> ex" "\<not> raises env c7"
          "\<not> raises env c8"
    by blast
  then show P
  proof cases
    case a
    with run show P by (intro raised4) (auto simp: defs)
  next
    case b
    with run show P by (intro raised5) (auto simp: defs)
  next
    case c
    with run show P by (intro raised6) (auto simp: defs)
  next
    case d
    with run show P by (intro answered) (auto simp: defs)
  next
    case e
    with run show P by (intro raised7) (auto simp: defs)
  next
    case f
    with run show P by (intro raised8) (auto simp: defs)
  next
    case g
    with run show P by (intro logged) (auto simp: defs)
  qed
qed

text \<open>Every way a run can go, with what it leaves behind.\<close>

lemma run_cases
  [consumes 1, case_names raised1 raised2 raised3 unreadable
     raised4 raised5 raised6 raised7 raised8 logged answered]:
  fixes env w ts ct u ch p
  defines "n \<equiv> historical_chat_blob_name ct"
  defines "c1 \<equiv> DownloadBlob HISTORICAL_CHAT_BUCKET_NAME n"
  defines "c2 \<equiv> BlobExists HISTORICAL_CHAT_BUCKET_NAME n"
  defines "c3 \<equiv> DownloadAsBytes HISTORICAL_CHAT_BUCKET_NAME n"
  defines "ex \<equiv> gcs w (HISTORICAL_CHAT_BUCKET_NAME, n) \<noteq> None"
  assumes run: "generate_response env w ts ct u ch p = (r, w')"
      and R_raised1: "raises env c1 \<Longrightarrow> r = Inl (Raised c1) \<Longrightarrow> calls w' = calls w @ [c1] \<Longrightarrow>
             gcs w' = gcs w \<Longrightarrow> slack w' = slack w \<Longrightarrow> cloud_log w' = cloud_log w \<Longrightarrow> P"
      and R_raised2: "\<not> raises env c1 \<Longrightarrow> raises env c2 \<Longrightarrow> r = Inl (Raised c2) \<Longrightarrow>
             calls w' = calls w @ [c1, c2] \<Longrightarrow>
             gcs w' = gcs w \<Longrightarrow> slack w' = slack w \<Longrightarrow> cloud_log w' = cloud_log w \<Longrightarrow> P"
      and R_raised3: "ex \<Longrightarrow> \<not> raises env c1 \<Longrightarrow> \<not> raises env c2 \<Longrightarrow> raises env c3 \<Longrightarrow>
             r = Inl (Raised c3) \<Longrightarrow> calls w' = calls w @ [c1, c2, c3] \<Longrightarrow>
             gcs w' = gcs w \<Longrightarrow> slack w' = slack w \<Longrightarrow> cloud_log w' = cloud_log w \<Longrightarrow> P"
      and R_unreadable: "\<And>b e. gcs w (HISTORICAL_CHAT_BUCKET_NAME, n) = Some b \<Longrightarrow>
             \<not> raises env c1 \<Longrightarrow> \<not> raises env c2 \<Longrightarrow> \<not> raises env c3 \<Longrightarrow>
             pickle_loads env b = Inl e \<or>
               (\<exists>x. pickle_loads env b = Inr x \<and>
                    py_getitem x (py_str ''historical_chat'') = Inl e) \<Longrightarrow>
             r = Inl e \<Longrightarrow> calls w' = calls w @ [c1, c2, c3] \<Longrightarrow>
             gcs w' = gcs w \<Longrightarrow> slack w' = slack w \<Longrightarrow> cloud_log w' = cloud_log w \<Longrightarrow> P"
      and R_raised4: "\<And>pre h c4. loads_history env w ct pre h \<Longrightarrow>
             c4 = SendMessage (start_chat env RESPONSE_STYLE h) p \<Longrightarrow> raises env c4 \<Longrightarrow>
             r = Inl (Raised c4) \<Longrightarrow> calls w' = calls w @ pre @ [c4] \<Longrightarrow>
             gcs w' = gcs w \<Longrightarrow> slack w' = slack w \<Longrightarrow> cloud_log w' = cloud_log w \<Longrightarrow> P"
      and R_raised5: "\<And>pre h c4 t c5. loads_history env w ct pre h \<Longrightarrow>
             c4 = SendMessage (start_chat env RESPONSE_STYLE h) p \<Longrightarrow>
             t = payload_text env (fst (send_message env (start_chat env RESPONSE_STYLE h) p)) \<Longrightarrow>
             c5 = ChatPostMessage ch ts t \<Longrightarrow>
             \<not> raises env c4 \<Longrightarrow> raises env c5 \<Longrightarrow>
             r = Inl (Raised c5) \<Longrightarrow> calls w' = calls w @ pre @ [c4, c5] \<Longrightarrow>
             gcs w' = gcs w \<Longrightarrow> slack w' = slack w \<Longrightarrow> cloud_log w' = cloud_log w \<Longrightarrow> P"
      and R_raised6: "\<And>pre h c4 t c5 h' c6. loads_history env w ct pre h \<Longrightarrow>
             c4 = SendMessage (start_chat env RESPONSE_STYLE h) p \<Longrightarrow>
             t = payload_text env (fst (send_message env (start_chat env RESPONSE_STYLE h) p)) \<Longrightarrow>
             c5 = ChatPostMessage ch ts t \<Longrightarrow>
             h' = snd (send_message env (start_chat env RESPONSE_STYLE h) p) \<Longrightarrow>
             c6 = StoreHistoricalChat (py_str ''dummy_metadata_chat'') h'
                    HISTORICAL_CHAT_BUCKET_NAME n \<Longrightarrow>
             \<not> raises env c4 \<Longrightarrow> \<not> raises env c5 \<Longrightarrow> raises env c6 \<Longrightarrow>
             r = Inl (Raised c6) \<Longrightarrow> calls w' = calls w @ pre @ [c4, c5, c6] \<Longrightarrow>
             gcs w' = gcs w \<Longrightarrow>
             slack w' = slack w @ [\<lparr>msg_channel = ch, msg_thread_ts = ts, msg_text = t\<rparr>] \<Longrightarrow>
             cloud_log w' = cloud_log w \<Longrightarrow> P"
      and R_raised7: "\<And>pre h c4 t c5 h' c6 c7. loads_history env w ct pre h \<Longrightarrow>
             c4 = SendMessage (start_chat env RESPONSE_STYLE h) p \<Longrightarrow>
             t = payload_text env (fst (send_message env (start_chat env RESPONSE_STYLE h) p)) \<Longrightarrow>
             c5 = ChatPostMessage ch ts t \<Longrightarrow>
             h' = snd (send_message env (start_chat env RESPONSE_STYLE h) p) \<Longrightarrow>
             c6 = StoreHistoricalChat (py_str ''dummy_metadata_chat'') h'
                    HISTORICAL_CHAT_BUCKET_NAME n \<Longrightarrow>
             c7 = GetKeyword p \<Longrightarrow>
             \<not> ex \<Longrightarrow> \<not> raises env c4 \<Longrightarrow> \<not> raises env c5 \<Longrightarrow> \<not> raises env c6 \<Longrightarrow>
             raises env c7 \<Longrightarrow>
             r = Inl (Raised c7) \<Longrightarrow> calls w' = calls w @ pre @ [c4, c5, c6, c7] \<Longrightarrow>
             gcs w' = (gcs w)((HISTORICAL_CHAT_BUCKET_NAME, n) \<mapsto>
               pickle_dumps env (conversation_record (py_str ''dummy_metadata_chat'') h')) \<Longrightarrow>
             slack w' = slack w @ [\<lparr>msg_channel = ch, msg_thread_ts = ts, msg_text = t\<rparr>] \<Longrightarrow>
             cloud_log w' = cloud_log w \<Longrightarrow> P"
      and R_raised8: "\<And>pre h c4 t c5 h' c6 c7 c8. loads_history env w ct pre h \<Longrightarrow>
             c4 = SendMessage (start_chat env RESPONSE_STYLE h) p \<Longrightarrow>
             t = payload_text env (fst (send_message env (start_chat env RESPONSE_STYLE h) p)) \<Longrightarrow>
             c5 = ChatPostMessage ch ts t \<Longrightarrow>
             h' = snd (send_message env (start_chat env RESPONSE_STYLE h) p) \<Longrightarrow>
             c6 = StoreHistoricalChat (py_str ''dummy_metadata_chat'') h'
                    HISTORICAL_CHAT_BUCKET_NAME n \<Longrightarrow>
             c7 = GetKeyword p \<Longrightarrow> c8 = SendLog u p t (get_keyword env p) \<Longrightarrow>
             \<not> ex \<Longrightarrow> \<not> raises env c4 \<Longrightarrow> \<not> raises env c5 \<Longrightarrow> \<not> raises env c6 \<Longrightarrow>
             \<not> raises env c7 \<Longrightarrow> raises env c8 \<Longrightarrow>
             r = Inl (Raised c8) \<Longrightarrow> calls w' = calls w @ pre @ [c4, c5, c6, c7, c8] \<Longrightarrow>
             gcs w' = (gcs w)((HISTORICAL_CHAT_BUCKET_NAME, n) \<mapsto>
               pickle_dumps env (conversation_record (py_str ''dummy_metadata_chat'') h')) \<Longrightarrow>
             slack w' = slack w @ [\<lparr>msg_channel = ch, msg_thread_ts = ts, msg_text = t\<rparr>] \<Longrightarrow>
             cloud_log w' = cloud_log w \<Longrightarrow> P"
      and R_logged: "\<And>pre h c4 t c5 h' c6 c7 c8. loads_history env w ct pre h \<Longrightarrow>
             c4 = SendMessage (start_chat env RESPONSE_STYLE h) p \<Longrightarrow>
             t = payload_text env (fst (send_message env (start_chat env RESPONSE_STYLE h) p)) \<Longrightarrow>
             c5 = ChatPostMessage ch ts t \<Longrightarrow>
             h' = snd (send_message env (start_chat env RESPONSE_STYLE h) p) \<Longrightarrow>
             c6 = StoreHistoricalChat (py_str ''dummy_metadata_chat'') h'
                    HISTORICAL_CHAT_BUCKET_NAME n \<Longrightarrow>
             c7 = GetKeyword p \<Longrightarrow> c8 = SendLog u p t (get_keyword env p) \<Longrightarrow>
             \<not> ex \<Longrightarrow> \<not> raises env c4 \<Longrightarrow> \<not> raises env c5 \<Longrightarrow> \<not> raises env c6 \<Longrightarrow>
             \<not> raises env c7 \<Longrightarrow> \<not> raises env c8 \<Longrightarrow>
             r = Inr () \<Longrightarrow> calls w' = calls w @ pre @ [c4, c5, c6, c7, c8] \<Longrightarrow>
             gcs w' = (gcs w)((HISTORICAL_CHAT_BUCKET_NAME, n) \<mapsto>
               pickle_dumps env (conversation_record (py_str ''dummy_metadata_chat'') h')) \<Longrightarrow>
             slack w' = slack w @ [\<lparr>msg_channel = ch, msg_thread_ts = ts, msg_text = t\<rparr>] \<Longrightarrow>
             cloud_log w' = cloud_log w @
               [\<lparr>log_user_id = u, log_prompt = p, log_response = t,
                 log_keyword = get_keyword env p\<rparr>] \<Longrightarrow> P"
      and R_answered: "\<And>pre h c4 t c5 h' c6. loads_history env w ct pre h \<Longrightarrow>
             c4 = SendMessage (start_chat env RESPONSE_STYLE h) p \<Longrightarrow>
             t = payload_text env (fst (send_message env (start_chat env RESPONSE_STYLE h) p)) \<Longrightarrow>
             c5 = ChatPostMessage ch ts t \<Longrightarrow>
             h' = snd (send_message env (start_chat env RESPONSE_STYLE h) p) \<Longrightarrow>
             c6 = StoreHistoricalChat (py_str ''dummy_metadata_chat'') h'
                    HISTORICAL_CHAT_BUCKET_NAME n \<Longrightarrow>
             ex \<Longrightarrow> \<not> raises env c4 \<Longrightarrow> \<not> raises env c5 \<Longrightarrow> \<not> raises env c6 \<Longrightarrow>
             r = Inr () \<Longrightarrow> calls w' = calls w @ pre @ [c4, c5, c6] \<Longrightarrow>
             gcs w' = (gcs w)((HISTORICAL_CHAT_BUCKET_NAME, n) \<mapsto>
               pickle_dumps env (conversation_record (py_str ''dummy_metadata_chat'') h')) \<Longrightarrow>
             slack w' = slack w @ [\<lparr>msg_channel = ch, msg_thread_ts = ts, msg_text = t\<rparr>] \<Longrightarrow>
             cloud_log w' = cloud_log w \<Longrightarrow> P"
  shows P
proof (cases rule: generate_response_cases
    [where env=env and w=w and ts=ts and ct=ct and u=u and ch=ch and p=p])
  case raised1
  with run show P by (intro R_raised1) (auto simp: c1_def n_def)
next
  case raised2
  with run show P by (intro R_raised2) (auto simp: c1_def c2_def n_def)
next
  case (raised3 b)
  with run show P by (intro R_raised3) (auto simp: c1_def c2_def c3_def n_def ex_def)
next
  case (unreadable b e)
  with run show P
    by (intro R_unreadable[of b e]) (auto simp: c1_def c2_def c3_def n_def)
next
  case fresh
  then have l: "loads_history env w ct [c1, c2] (PyList [])"
    by (simp add: loads_history_def Let_def c1_def c2_def n_def)
  have nex: "\<not> ex" using fresh by (simp add: ex_def n_def)
  from run fresh(4) have "answer_and_store env
      (call_made (call_made w c1) c2) False (PyList []) n ts u ch p = (r, w')"
    by (simp add: c1_def c2_def n_def)
  then show P
  proof (cases rule: answer_and_store_cases)
    case raised4
    then show ?thesis by (intro R_raised4[OF l]) simp_all
  next
    case raised5
    then show ?thesis by (intro R_raised5[OF l]) simp_all
  next
    case raised6
    then show ?thesis by (intro R_raised6[OF l]) simp_all
  next
    case raised7
    then show ?thesis using nex by (intro R_raised7[OF l]) simp_all
  next
    case raised8
    then show ?thesis using nex by (intro R_raised8[OF l]) simp_all
  next
    case logged
    then show ?thesis using nex by (intro R_logged[OF l]) simp_all
  next
    case answered
    then show ?thesis by simp
  qed
next
  case (resumed b x h)
  then have l: "loads_history env w ct [c1, c2, c3] h"
    by (simp add: loads_history_def Let_def c1_def c2_def c3_def n_def)
  have ex: "ex" using resumed by (simp add: ex_def n_def)
  from run resumed(7) have "answer_and_store env
      (call_made (call_made (call_made w c1) c2) c3) True h n ts u ch p = (r, w')"
    by (simp add: c1_def c2_def c3_def n_def)
  then show P
  proof (cases rule: answer_and_store_cases)
    case raised4
    then show ?thesis by (intro R_raised4[OF l]) simp_all
  next
    case raised5
    then show ?thesis by (intro R_raised5[OF l]) simp_all
  next
    case raised6
    then show ?thesis by (intro R_raised6[OF l]) simp_all
  next
    case answered
    then show ?thesis using ex by (intro R_answered[OF l]) simp_all
  qed simp_all
qed

section \<open>Facts about the parts\<close>

lemma getitem_conversation_record [simp]:
  "py_getitem (conversation_record md h) (py_str ''historical_chat'') = Inr h"
  by (simp add: conversation_record_def py_str_def)

lemma payload_text_blocked [simp]: "is_blocked r \<Longrightarrow> payload_text env r = policy_notice"
  by (simp add: payload_text_def)

lemma payload_text_empty [simp]: "is_empty_response r \<Longrightarrow> payload_text env r = policy_notice"
  by (simp add: payload_text_def)

lemma start_chat_inject [simp]:
  "start_chat env c h = start_chat env c h' \<longleftrightarrow> h = h'"
  by (simp add: start_chat_def)

lemma loads_history_pre:
  "loads_history env w ct pre h \<Longrightarrow>
     pre = [DownloadBlob HISTORICAL_CHAT_BUCKET_NAME (historical_chat_blob_name ct),
            BlobExists HISTORICAL_CHAT_BUCKET_NAME (historical_chat_blob_name ct)] \<or>
     pre = [DownloadBlob HISTORICAL_CHAT_BUCKET_NAME (historical_chat_blob_name ct),
            BlobExists HISTORICAL_CHAT_BUCKET_NAME (historical_chat_blob_name ct),
            DownloadAsBytes HISTORICAL_CHAT_BUCKET_NAME (historical_chat_blob_name ct)]"
  by (auto simp: loads_history_def Let_def split: option.splits)

lemma loads_history_unique:
  "loads_history env w ct pre h \<Longrightarrow> loads_history env w ct pre' h' \<Longrightarrow> pre' = pre \<and> h' = h"
  by (auto simp: loads_history_def Let_def split: option.splits sum.splits)

lemma loads_history_send_message [simp]:
  "loads_history (env\<lparr>send_message := f\<rparr>) w ct pre h = loads_history env w ct pre h"
  by (simp add: loads_history_def Let_def split: option.splits)

lemma loads_history_quiet:
  "loads_history env w ct pre h \<Longrightarrow> c \<in> set pre \<Longrightarrow> \<not> raises env c"
  by (auto simp: loads_history_def Let_def split: option.splits)

















lemma handler_splits_at_lookup:
  assumes "\<not> raises env (DownloadBlob HISTORICAL_CHAT_BUCKET_NAME
                (historical_chat_blob_name (conversation_thread payload)))"
      and "\<not> raises env (BlobExists HISTORICAL_CHAT_BUCKET_NAME
                (historical_chat_blob_name (conversation_thread payload)))"
      and "gcs w (HISTORICAL_CHAT_BUCKET_NAME,
                historical_chat_blob_name (conversation_thread payload)) = None"
  shows "handle_incoming_message env w payload = answer_new_thread env payload (lookup_world payload w)"
  using assms
  by (simp add: handle_incoming_message_def generate_response_def answer_new_thread_def
        lookup_world_def download_blob_def Let_def)

section \<open>The scenario, evaluated\<close>

lemmas stub_defs = stub_env_def empty_world_def first_event_def second_event_def plain_reply_def
  blocked_reply_def tab_reply_def blank_reply_def first_run_def stub_send_message_def
  handle_incoming_message_def conversation_thread_def dict_get_def
  generate_response_def answer_and_store_def Let_def download_blob_def start_chat_def
  payload_text_def is_empty_response_def py_strip_def
  historical_chat_blob_name_def py_format_def py_str_def HISTORICAL_CHAT_BUCKET_NAME_def
  RESPONSE_STYLE_def policy_notice_def conversation_record_def toy_loads_def new_calls_def

lemma first_turn_result:
  "fst (handle_incoming_message (stub_env plain_reply) empty_world first_event) = Inr ()"
  "calls world_after_first =
     [DownloadBlob (py_str ''historical-chat-object'') (py_str ''100.pkl''),
      BlobExists (py_str ''historical-chat-object'') (py_str ''100.pkl''),
      SendMessage \<lparr>chat_context = [], chat_examples = [], message_history = PyList []\<rparr>
        (Some (py_str ''hello'')),
      ChatPostMessage (Some (py_str ''C1'')) (Some (py_str ''100'')) (py_str ''Hi there''),
      StoreHistoricalChat (py_str ''dummy_metadata_chat'') history_after_first
        (py_str ''historical-chat-object'') (py_str ''100.pkl''),
      GetKeyword (Some (py_str ''hello'')),
      SendLog (Some (py_str ''U1'')) (Some (py_str ''hello'')) (py_str ''Hi there'')
        (py_str ''greeting'')]"
  "slack world_after_first =
     [\<lparr>msg_channel = Some (py_str ''C1''), msg_thread_ts = Some (py_str ''100''),
       msg_text = py_str ''Hi there''\<rparr>]"
  "cloud_log world_after_first =
     [\<lparr>log_user_id = Some (py_str ''U1''), log_prompt = Some (py_str ''hello''),
       log_response = py_str ''Hi there'', log_keyword = py_str ''greeting''\<rparr>]"
  "gcs world_after_first (py_str ''historical-chat-object'', py_str ''100.pkl'') =
     Some (toy_dumps (conversation_record (py_str ''dummy_metadata_chat'') history_after_first))"
  by (simp_all add: world_after_first_def history_after_first_def stub_defs)

lemma second_turn_result:
  "fst (handle_incoming_message (stub_env plain_reply) world_after_first second_event) = Inr ()"
  "new_calls world_after_first
     (snd (handle_incoming_message (stub_env plain_reply) world_after_first second_event)) =
     [DownloadBlob (py_str ''historical-chat-object'') (py_str ''100.pkl''),
      BlobExists (py_str ''historical-chat-object'') (py_str ''100.pkl''),
      DownloadAsBytes (py_str ''historical-chat-object'') (py_str ''100.pkl''),
      SendMessage \<lparr>chat_context = [], chat_examples = [],
                    message_history = history_after_first\<rparr> (Some (py_str ''follow-up'')),
      ChatPostMessage (Some (py_str ''C1'')) (Some (py_str ''101'')) (py_str ''Hi there''),
      StoreHistoricalChat (py_str ''dummy_metadata_chat'')
        (PyList [ChatMessage (py_str ''hello'') (py_str ''user''),
                 ChatMessage (py_str ''Hi *there*'') (py_str ''bot''),
                 ChatMessage (py_str ''follow-up'') (py_str ''user''),
                 ChatMessage (py_str ''Hi *there*'') (py_str ''bot'')])
        (py_str ''historical-chat-object'') (py_str ''100.pkl'')]"
  "cloud_log (snd (handle_incoming_message (stub_env plain_reply) world_after_first second_event)) =
     cloud_log world_after_first"
  by (simp_all add: world_after_first_def history_after_first_def stub_defs)

lemma first_run_is_run:
  "generate_response (stub_env reply) empty_world (Some (py_str ''100'')) (Some (py_str ''100''))
     (Some (py_str ''U1'')) (Some (py_str ''C1'')) (Some (py_str ''hello'')) = first_run reply"
  by (simp add: first_run_def handle_incoming_message_def conversation_thread_def dict_get_def
        first_event_def Let_def)

section \<open>Loading the history\<close>

text \<open>
  Claim C1. In a thread whose blob holds a record stored by the handler, with history \<open>h\<close>,
  and with \<open>pickle\<close> reading back what it wrote, the handler asks for the blob, downloads and
  unpickles it, and sends the prompt to the chat model in a session whose message history
  is exactly \<open>h\<close>.
\<close>

theorem prior_record_history_round_trip:
  assumes "gcs w (HISTORICAL_CHAT_BUCKET_NAME, historical_chat_blob_name ct) =
             Some (pickle_dumps env (conversation_record md h))"
      and "pickle_loads env (pickle_dumps env (conversation_record md h)) =
             Inr (conversation_record md h)"
      and "\<not> raises env (DownloadBlob HISTORICAL_CHAT_BUCKET_NAME (historical_chat_blob_name ct))"
      and "\<not> raises env (BlobExists HISTORICAL_CHAT_BUCKET_NAME (historical_chat_blob_name ct))"
      and "\<not> raises env (DownloadAsBytes HISTORICAL_CHAT_BUCKET_NAME (historical_chat_blob_name ct))"
  shows "take 4 (new_calls w (snd (generate_response env w ts ct u ch p))) =
           [DownloadBlob HISTORICAL_CHAT_BUCKET_NAME (historical_chat_blob_name ct),
            BlobExists HISTORICAL_CHAT_BUCKET_NAME (historical_chat_blob_name ct),
            DownloadAsBytes HISTORICAL_CHAT_BUCKET_NAME (historical_chat_blob_name ct),
            SendMessage (start_chat env RESPONSE_STYLE h) p]"
proof -
  obtain r w' where run: "generate_response env w ts ct u ch p = (r, w')"
    by (cases "generate_response env w ts ct u ch p")
  from run have "take 4 (new_calls w w') =
           [DownloadBlob HISTORICAL_CHAT_BUCKET_NAME (historical_chat_blob_name ct),
            BlobExists HISTORICAL_CHAT_BUCKET_NAME (historical_chat_blob_name ct),
            DownloadAsBytes HISTORICAL_CHAT_BUCKET_NAME (historical_chat_blob_name ct),
            SendMessage (start_chat env RESPONSE_STYLE h) p]"
    by (cases rule: run_cases) (use assms in \<open>auto simp: new_calls_def loads_history_def Let_def\<close>)
  with run show ?thesis by simp
qed

theorem prior_record_history_round_trip_witness:
  "gcs world_after_first
     (HISTORICAL_CHAT_BUCKET_NAME, historical_chat_blob_name (Some (py_str ''100''))) =
     Some (pickle_dumps (stub_env plain_reply)
             (conversation_record (py_str ''dummy_metadata_chat'') history_after_first))
   \<and> pickle_loads (stub_env plain_reply)
        (pickle_dumps (stub_env plain_reply)
           (conversation_record (py_str ''dummy_metadata_chat'') history_after_first)) =
       Inr (conversation_record (py_str ''dummy_metadata_chat'') history_after_first)
   \<and> \<not> raises (stub_env plain_reply)
         (DownloadBlob HISTORICAL_CHAT_BUCKET_NAME (historical_chat_blob_name (Some (py_str ''100''))))
   \<and> \<not> raises (stub_env plain_reply)
         (BlobExists HISTORICAL_CHAT_BUCKET_NAME (historical_chat_blob_name (Some (py_str ''100''))))
   \<and> \<not> raises (stub_env plain_reply)
         (DownloadAsBytes HISTORICAL_CHAT_BUCKET_NAME (historical_chat_blob_name (Some (py_str ''100''))))
   \<and> take 4 (new_calls world_after_first
        (snd (generate_response (stub_env plain_reply) world_after_first
           (Some (py_str ''101'')) (Some (py_str ''100'')) (Some (py_str ''U1''))
           (Some (py_str ''C1'')) (Some (py_str ''follow-up''))))) =
       [DownloadBlob (py_str ''historical-chat-object'') (py_str ''100.pkl''),
        BlobExists (py_str ''historical-chat-object'') (py_str ''100.pkl''),
        DownloadAsBytes (py_str ''historical-chat-object'') (py_str ''100.pkl''),
        SendMessage \<lparr>chat_context = [], chat_examples = [],
                      message_history = history_after_first\<rparr> (Some (py_str ''follow-up''))]"
proof -
  have h1: "gcs world_after_first
     (HISTORICAL_CHAT_BUCKET_NAME, historical_chat_blob_name (Some (py_str ''100''))) =
     Some (pickle_dumps (stub_env plain_reply)
             (conversation_record (py_str ''dummy_metadata_chat'') history_after_first))"
    by (simp add: world_after_first_def history_after_first_def stub_defs)
  have h2: "pickle_loads (stub_env plain_reply)
        (pickle_dumps (stub_env plain_reply)
           (conversation_record (py_str ''dummy_metadata_chat'') history_after_first)) =
       Inr (conversation_record (py_str ''dummy_metadata_chat'') history_after_first)"
    by (simp add: history_after_first_def stub_defs)
  have h3: "\<not> raises (stub_env plain_reply) c" for c
    by (simp add: stub_env_def)
  from prior_record_history_round_trip[OF h1 h2 h3 h3 h3, of "Some (py_str ''101'')" "Some (py_str ''U1'')"
      "Some (py_str ''C1'')" "Some (py_str ''follow-up'')"]
  have "take 4 (new_calls world_after_first
        (snd (generate_response (stub_env plain_reply) world_after_first
           (Some (py_str ''101'')) (Some (py_str ''100'')) (Some (py_str ''U1''))
           (Some (py_str ''C1'')) (Some (py_str ''follow-up''))))) =
       [DownloadBlob (py_str ''historical-chat-object'') (py_str ''100.pkl''),
        BlobExists (py_str ''historical-chat-object'') (py_str ''100.pkl''),
        DownloadAsBytes (py_str ''historical-chat-object'') (py_str ''100.pkl''),
        SendMessage \<lparr>chat_context = [], chat_examples = [],
                      message_history = history_after_first\<rparr> (Some (py_str ''follow-up''))]"
    by (simp add: HISTORICAL_CHAT_BUCKET_NAME_def historical_chat_blob_name_def py_format_def
          py_str_def start_chat_def RESPONSE_STYLE_def stub_env_def)
  with h1 h2 h3 show ?thesis by simp
qed

text \<open>
  Claim C2. In a thread with no stored record, and with the object store answering, the
  handler asks for the blob, learns that it does not exist, downloads nothing and sends the
  prompt to the chat model in a session whose message history is the empty list.
\<close>

theorem no_prior_record_empty_history:
  assumes "gcs w (HISTORICAL_CHAT_BUCKET_NAME, historical_chat_blob_name ct) = None"
      and "\<not> raises env (DownloadBlob HISTORICAL_CHAT_BUCKET_NAME (historical_chat_blob_name ct))"
      and "\<not> raises env (BlobExists HISTORICAL_CHAT_BUCKET_NAME (historical_chat_blob_name ct))"
  shows "take 3 (new_calls w (snd (generate_response env w ts ct u ch p))) =
           [DownloadBlob HISTORICAL_CHAT_BUCKET_NAME (historical_chat_blob_name ct),
            BlobExists HISTORICAL_CHAT_BUCKET_NAME (historical_chat_blob_name ct),
            SendMessage (start_chat env RESPONSE_STYLE (PyList [])) p]"
proof -
  obtain r w' where run: "generate_response env w ts ct u ch p = (r, w')"
    by (cases "generate_response env w ts ct u ch p")
  from run have "take 3 (new_calls w w') =
           [DownloadBlob HISTORICAL_CHAT_BUCKET_NAME (historical_chat_blob_name ct),
            BlobExists HISTORICAL_CHAT_BUCKET_NAME (historical_chat_blob_name ct),
            SendMessage (start_chat env RESPONSE_STYLE (PyList [])) p]"
    by (cases rule: run_cases) (use assms in \<open>auto simp: new_calls_def loads_history_def Let_def\<close>)
  with run show ?thesis by simp
qed

theorem no_prior_record_empty_history_witness:
  "gcs empty_world (HISTORICAL_CHAT_BUCKET_NAME, historical_chat_blob_name (Some (py_str ''100''))) = None
   \<and> \<not> raises (stub_env plain_reply)
         (DownloadBlob HISTORICAL_CHAT_BUCKET_NAME (historical_chat_blob_name (Some (py_str ''100''))))
   \<and> \<not> raises (stub_env plain_reply)
         (BlobExists HISTORICAL_CHAT_BUCKET_NAME (historical_chat_blob_name (Some (py_str ''100''))))
   \<and> take 3 (new_calls empty_world (snd (generate_response (stub_env plain_reply) empty_world
         (Some (py_str ''100'')) (Some (py_str ''100'')) (Some (py_str ''U1'')) (Some (py_str ''C1''))
         (Some (py_str ''hello''))))) =
       [DownloadBlob (py_str ''historical-chat-object'') (py_str ''100.pkl''),
        BlobExists (py_str ''historical-chat-object'') (py_str ''100.pkl''),
        SendMessage \<lparr>chat_context = [], chat_examples = [], message_history = PyList []\<rparr>
          (Some (py_str ''hello''))]"
  using no_prior_record_empty_history[of empty_world "Some (py_str ''100'')" "stub_env plain_reply"
       "Some (py_str ''100'')" "Some (py_str ''U1'')" "Some (py_str ''C1'')" "Some (py_str ''hello'')"]
  by (simp add: stub_env_def empty_world_def HISTORICAL_CHAT_BUCKET_NAME_def
        historical_chat_blob_name_def py_format_def py_str_def RESPONSE_STYLE_def start_chat_def)

section \<open>The text that is posted\<close>

text \<open>
  Claim C3. When the response of the chat model is flagged as blocked, and neither the
  model call nor the post raises, the one message the run posts carries the fixed notice,
  whatever text the model generated.
\<close>

theorem blocked_response_dispatches_notice:
  assumes run: "generate_response env w ts ct u ch p = (r, w')"
      and sent: "SendMessage chat p \<in> set (new_calls w w')"
      and blocked: "is_blocked (fst (send_message env chat p))"
      and ok: "\<not> raises env (SendMessage chat p)" "\<not> raises env (ChatPostMessage ch ts policy_notice)"
  shows "ChatPostMessage ch ts policy_notice \<in> set (new_calls w w')
         \<and> slack w' = slack w @ [\<lparr>msg_channel = ch, msg_thread_ts = ts, msg_text = policy_notice\<rparr>]"
  using run
  by (cases rule: run_cases)
     (use sent blocked ok in \<open>auto simp: new_calls_def loads_history_def Let_def split: option.splits\<close>)

theorem blocked_response_dispatches_notice_witness:
  "SendMessage \<lparr>chat_context = [], chat_examples = [], message_history = PyList []\<rparr>
      (Some (py_str ''hello'')) \<in> set (new_calls empty_world (snd (first_run blocked_reply)))
   \<and> is_blocked (fst (send_message (stub_env blocked_reply)
         \<lparr>chat_context = [], chat_examples = [], message_history = PyList []\<rparr>
         (Some (py_str ''hello''))))
   \<and> response_text (fst (send_message (stub_env blocked_reply)
         \<lparr>chat_context = [], chat_examples = [], message_history = PyList []\<rparr>
         (Some (py_str ''hello'')))) = py_str ''raw text''
   \<and> \<not> raises (stub_env blocked_reply)
         (SendMessage \<lparr>chat_context = [], chat_examples = [], message_history = PyList []\<rparr>
            (Some (py_str ''hello'')))
   \<and> \<not> raises (stub_env blocked_reply)
         (ChatPostMessage (Some (py_str ''C1'')) (Some (py_str ''100'')) policy_notice)
   \<and> ChatPostMessage (Some (py_str ''C1'')) (Some (py_str ''100'')) policy_notice
         \<in> set (new_calls empty_world (snd (first_run blocked_reply)))
   \<and> slack (snd (first_run blocked_reply)) =
       [\<lparr>msg_channel = Some (py_str ''C1''), msg_thread_ts = Some (py_str ''100''),
         msg_text = policy_notice\<rparr>]"
proof -
  let ?chat = "\<lparr>chat_context = [], chat_examples = [], message_history = PyList []\<rparr>"
  have run: "generate_response (stub_env blocked_reply) empty_world (Some (py_str ''100''))
      (Some (py_str ''100'')) (Some (py_str ''U1'')) (Some (py_str ''C1'')) (Some (py_str ''hello''))
      = (fst (first_run blocked_reply), snd (first_run blocked_reply))"
    by (simp add: first_run_is_run)
  have sent: "SendMessage ?chat (Some (py_str ''hello''))
      \<in> set (new_calls empty_world (snd (first_run blocked_reply)))"
    by (simp add: stub_defs)
  have blocked: "is_blocked (fst (send_message (stub_env blocked_reply) ?chat (Some (py_str ''hello''))))"
    by (simp add: stub_defs)
  have raw: "response_text (fst (send_message (stub_env blocked_reply) ?chat
      (Some (py_str ''hello'')))) = py_str ''raw text''"
    by (simp add: stub_defs)
  have quiet: "\<not> raises (stub_env blocked_reply) c" for c
    by (simp add: stub_env_def)
  from blocked_response_dispatches_notice[OF run sent blocked quiet quiet] sent blocked raw quiet
  show ?thesis by (simp add: empty_world_def)
qed

text \<open>
  Claim C4, as the code has it. When the generated text is empty once its leading and
  trailing spaces and line feeds (U+0020 and U+000A, the two characters the code strips)
  are removed, and neither the model call nor the post raises, the one message the run
  posts carries the fixed notice.
\<close>

theorem empty_response_dispatches_notice:
  assumes run: "generate_response env w ts ct u ch p = (r, w')"
      and sent: "SendMessage chat p \<in> set (new_calls w w')"
      and empty: "length (py_strip [32, 10] (response_text (fst (send_message env chat p)))) = 0"
      and ok: "\<not> raises env (SendMessage chat p)" "\<not> raises env (ChatPostMessage ch ts policy_notice)"
  shows "ChatPostMessage ch ts policy_notice \<in> set (new_calls w w')
         \<and> slack w' = slack w @ [\<lparr>msg_channel = ch, msg_thread_ts = ts, msg_text = policy_notice\<rparr>]"
proof -
  from empty have "is_empty_response (fst (send_message env chat p))"
    by (simp add: is_empty_response_def py_str_def)
  with run show ?thesis
    by (cases rule: run_cases)
       (use sent ok in \<open>auto simp: new_calls_def loads_history_def Let_def split: option.splits\<close>)
qed

theorem empty_response_dispatches_notice_witness:
  "SendMessage \<lparr>chat_context = [], chat_examples = [], message_history = PyList []\<rparr>
      (Some (py_str ''hello'')) \<in> set (new_calls empty_world (snd (first_run blank_reply)))
   \<and> length (py_strip [32, 10] (response_text (fst (send_message (stub_env blank_reply)
         \<lparr>chat_context = [], chat_examples = [], message_history = PyList []\<rparr>
         (Some (py_str ''hello'')))))) = 0
   \<and> response_text (fst (send_message (stub_env blank_reply)
         \<lparr>chat_context = [], chat_examples = [], message_history = PyList []\<rparr>
         (Some (py_str ''hello'')))) = [32, 10, 32]
   \<and> \<not> raises (stub_env blank_reply)
         (SendMessage \<lparr>chat_context = [], chat_examples = [], message_history = PyList []\<rparr>
            (Some (py_str ''hello'')))
   \<and> \<not> raises (stub_env blank_reply)
         (ChatPostMessage (Some (py_str ''C1'')) (Some (py_str ''100'')) policy_notice)
   \<and> ChatPostMessage (Some (py_str ''C1'')) (Some (py_str ''100'')) policy_notice
         \<in> set (new_calls empty_world (snd (first_run blank_reply)))
   \<and> slack (snd (first_run blank_reply)) =
       [\<lparr>msg_channel = Some (py_str ''C1''), msg_thread_ts = Some (py_str ''100''),
         msg_text = policy_notice\<rparr>]"
proof -
  let ?chat = "\<lparr>chat_context = [], chat_examples = [], message_history = PyList []\<rparr>"
  have run: "generate_response (stub_env blank_reply) empty_world (Some (py_str ''100''))
      (Some (py_str ''100'')) (Some (py_str ''U1'')) (Some (py_str ''C1'')) (Some (py_str ''hello''))
      = (fst (first_run blank_reply), snd (first_run blank_reply))"
    by (simp add: first_run_is_run)
  have sent: "SendMessage ?chat (Some (py_str ''hello''))
      \<in> set (new_calls empty_world (snd (first_run blank_reply)))"
    by (simp add: stub_defs)
  have blank: "length (py_strip [32, 10] (response_text (fst (send_message (stub_env blank_reply)
      ?chat (Some (py_str ''hello'')))))) = 0"
    by (simp add: stub_defs)
  have raw: "response_text (fst (send_message (stub_env blank_reply) ?chat
      (Some (py_str ''hello'')))) = [32, 10, 32]"
    by (simp add: stub_defs)
  have quiet: "\<not> raises (stub_env blank_reply) c" for c
    by (simp add: stub_env_def)
  from empty_response_dispatches_notice[OF run sent blank quiet quiet] sent blank raw quiet
  show ?thesis by (simp add: empty_world_def)
qed

text \<open>
  Claim C4 as the specification words it, with every kind of whitespace trimmed, does not
  hold: a response that is a single tab is empty once trimmed of whitespace, yet the code
  strips spaces and line feeds only, finds one character left, and posts the tab.
\<close>

theorem tab_only_response_is_posted:
  "length (spec_trim_whitespace (response_text tab_reply)) = 0
   \<and> \<not> is_blocked tab_reply
   \<and> \<not> is_empty_response tab_reply
   \<and> fst (send_message (stub_env tab_reply)
        \<lparr>chat_context = [], chat_examples = [], message_history = PyList []\<rparr>
        (Some (py_str ''hello''))) = tab_reply
   \<and> SendMessage \<lparr>chat_context = [], chat_examples = [], message_history = PyList []\<rparr>
        (Some (py_str ''hello'')) \<in> set (new_calls empty_world (snd (first_run tab_reply)))
   \<and> fst (first_run tab_reply) = Inr ()
   \<and> slack (snd (first_run tab_reply)) =
       [\<lparr>msg_channel = Some (py_str ''C1''), msg_thread_ts = Some (py_str ''100''),
         msg_text = [9]\<rparr>]
   \<and> [9] \<noteq> policy_notice"
  by (simp add: stub_defs spec_trim_whitespace_def spec_is_whitespace_def)

section \<open>What is stored\<close>

text \<open>
  Claim C5. In a run that completes and posts the notice in place of the answer, the blob
  of the thread holds the pickled record of the history that the chat session has after
  the call, and the store ends in the same state as in a completed run where the model had
  given any other text and flag with that same history.
\<close>

theorem substitution_keeps_persisted_history:
  assumes run: "generate_response env w ts ct u ch p = (Inr (), w')"
      and sent: "SendMessage chat p \<in> set (new_calls w w')"
      and subst: "is_blocked (fst (send_message env chat p)) \<or>
                  is_empty_response (fst (send_message env chat p))"
      and other: "generate_response
                    (env\<lparr>send_message := \<lambda>c q. (reply, snd (send_message env c q))\<rparr>)
                    w ts ct u ch p = (Inr (), w'')"
  shows "msg_text (last (slack w')) = policy_notice
         \<and> gcs w' (HISTORICAL_CHAT_BUCKET_NAME, historical_chat_blob_name ct) =
             Some (pickle_dumps env (conversation_record (py_str ''dummy_metadata_chat'')
                     (snd (send_message env chat p))))
         \<and> gcs w'' = gcs w'"
proof -
  let ?g = "(gcs w)((HISTORICAL_CHAT_BUCKET_NAME, historical_chat_blob_name ct) \<mapsto>
              pickle_dumps env (conversation_record (py_str ''dummy_metadata_chat'')
                     (snd (send_message env chat p))))"
  have a: "msg_text (last (slack w')) = policy_notice \<and> gcs w' = ?g
         \<and> chat = start_chat env RESPONSE_STYLE (message_history chat)
         \<and> (\<exists>pre. loads_history env w ct pre (message_history chat))"
    using run
    by (cases rule: run_cases)
       (use sent subst in \<open>auto simp: new_calls_def start_chat_def dest: loads_history_pre\<close>)
  then obtain pre where l: "loads_history env w ct pre (message_history chat)"
    and chat: "chat = start_chat env RESPONSE_STYLE (message_history chat)" by blast
  have c: "gcs w'' = ?g"
    using other
  proof (cases rule: run_cases)
    case (logged pre' h')
    from loads_history_unique[OF l] logged(1) have "h' = message_history chat" by simp
    with logged chat show ?thesis by (simp add: start_chat_def)
  next
    case (answered pre' h')
    from loads_history_unique[OF l] answered(1) have "h' = message_history chat" by simp
    with answered chat show ?thesis by (simp add: start_chat_def)
  qed simp_all
  from a c show ?thesis by simp
qed

theorem substitution_keeps_persisted_history_witness:
  "fst (first_run blocked_reply) = Inr ()
   \<and> SendMessage \<lparr>chat_context = [], chat_examples = [], message_history = PyList []\<rparr>
        (Some (py_str ''hello'')) \<in> set (new_calls empty_world (snd (first_run blocked_reply)))
   \<and> is_blocked (fst (send_message (stub_env blocked_reply)
        \<lparr>chat_context = [], chat_examples = [], message_history = PyList []\<rparr>
        (Some (py_str ''hello''))))
   \<and> fst (generate_response
            ((stub_env blocked_reply)
               \<lparr>send_message := \<lambda>c q. (plain_reply, snd (send_message (stub_env blocked_reply) c q))\<rparr>)
            empty_world (Some (py_str ''100'')) (Some (py_str ''100'')) (Some (py_str ''U1''))
            (Some (py_str ''C1'')) (Some (py_str ''hello''))) = Inr ()
   \<and> slack (snd (generate_response
            ((stub_env blocked_reply)
               \<lparr>send_message := \<lambda>c q. (plain_reply, snd (send_message (stub_env blocked_reply) c q))\<rparr>)
            empty_world (Some (py_str ''100'')) (Some (py_str ''100'')) (Some (py_str ''U1''))
            (Some (py_str ''C1'')) (Some (py_str ''hello'')))) =
       [\<lparr>msg_channel = Some (py_str ''C1''), msg_thread_ts = Some (py_str ''100''),
         msg_text = py_str ''Hi there''\<rparr>]
   \<and> msg_text (last (slack (snd (first_run blocked_reply)))) = policy_notice
   \<and> gcs (snd (first_run blocked_reply)) (py_str ''historical-chat-object'', py_str ''100.pkl'') =
       Some (toy_dumps (conversation_record (py_str ''dummy_metadata_chat'')
         (PyList [ChatMessage (py_str ''hello'') (py_str ''user''),
                  ChatMessage (py_str ''raw text'') (py_str ''bot'')])))
   \<and> gcs (snd (generate_response
            ((stub_env blocked_reply)
               \<lparr>send_message := \<lambda>c q. (plain_reply, snd (send_message (stub_env blocked_reply) c q))\<rparr>)
            empty_world (Some (py_str ''100'')) (Some (py_str ''100'')) (Some (py_str ''U1''))
            (Some (py_str ''C1'')) (Some (py_str ''hello'')))) =
       gcs (snd (first_run blocked_reply))"
proof -
  let ?chat = "\<lparr>chat_context = [], chat_examples = [], message_history = PyList []\<rparr>"
  let ?env' = "(stub_env blocked_reply)
     \<lparr>send_message := \<lambda>c q. (plain_reply, snd (send_message (stub_env blocked_reply) c q))\<rparr>"
  let ?other = "generate_response ?env' empty_world (Some (py_str ''100'')) (Some (py_str ''100''))
     (Some (py_str ''U1'')) (Some (py_str ''C1'')) (Some (py_str ''hello''))"
  have ok: "fst (first_run blocked_reply) = Inr ()"
    by (simp add: stub_defs)
  have run: "generate_response (stub_env blocked_reply) empty_world (Some (py_str ''100''))
      (Some (py_str ''100'')) (Some (py_str ''U1'')) (Some (py_str ''C1'')) (Some (py_str ''hello''))
      = (Inr (), snd (first_run blocked_reply))"
    using ok by (simp add: first_run_is_run prod_eq_iff)
  have sent: "SendMessage ?chat (Some (py_str ''hello''))
      \<in> set (new_calls empty_world (snd (first_run blocked_reply)))"
    by (simp add: stub_defs)
  have blocked: "is_blocked (fst (send_message (stub_env blocked_reply) ?chat (Some (py_str ''hello''))))"
    by (simp add: stub_defs)
  have ok': "fst ?other = Inr ()"
    by (simp add: stub_defs)
  have posted': "slack (snd ?other) =
       [\<lparr>msg_channel = Some (py_str ''C1''), msg_thread_ts = Some (py_str ''100''),
         msg_text = py_str ''Hi there''\<rparr>]"
    by (simp add: stub_defs)
  have other: "?other = (Inr (), snd ?other)"
    using ok' by (simp add: prod_eq_iff)
  note res = substitution_keeps_persisted_history[OF run sent disjI1[OF blocked] other]
  from res have 1: "msg_text (last (slack (snd (first_run blocked_reply)))) = policy_notice"
    by simp
  from res have 2: "gcs (snd (first_run blocked_reply))
       (py_str ''historical-chat-object'', py_str ''100.pkl'') =
       Some (toy_dumps (conversation_record (py_str ''dummy_metadata_chat'')
         (PyList [ChatMessage (py_str ''hello'') (py_str ''user''),
                  ChatMessage (py_str ''raw text'') (py_str ''bot'')])))"
    by (simp add: HISTORICAL_CHAT_BUCKET_NAME_def historical_chat_blob_name_def py_format_def
          py_str_def stub_env_def stub_send_message_def blocked_reply_def)
  from res have 3: "gcs (snd ?other) = gcs (snd (first_run blocked_reply))"
    by simp
  from ok sent blocked ok' posted' 1 2 3 show ?thesis by (intro conjI)
qed

text \<open>
  Claim C8. Every storage call of a run names the blob \<open>{thread}.pkl\<close> of the one bucket,
  the load first; a run that completes has stored a record under that same name, so that a
  later lookup of that thread finds it.
\<close>

theorem blob_named_by_thread:
  assumes run: "generate_response env w ts ct u ch p = (r, w')"
  shows "hd (new_calls w w') =
           DownloadBlob HISTORICAL_CHAT_BUCKET_NAME (py_format ct @ py_str ''.pkl'')
         \<and> set (List.map_filter blob_of_call (new_calls w w')) =
             {(HISTORICAL_CHAT_BUCKET_NAME, py_format ct @ py_str ''.pkl'')}
         \<and> (r = Inr () \<longrightarrow>
              (\<exists>md h. StoreHistoricalChat md h HISTORICAL_CHAT_BUCKET_NAME
                       (py_format ct @ py_str ''.pkl'') \<in> set (new_calls w w')
                \<and> gcs w' (HISTORICAL_CHAT_BUCKET_NAME, py_format ct @ py_str ''.pkl'') =
                    Some (pickle_dumps env (conversation_record md h)))
              \<and> gcs w' (download_blob HISTORICAL_CHAT_BUCKET_NAME (historical_chat_blob_name ct))
                  \<noteq> None)"
  using run
  by (cases rule: run_cases)
     (auto simp: new_calls_def historical_chat_blob_name_def download_blob_def List.map_filter_simps
           dest!: loads_history_pre)

theorem blob_named_by_thread_witness:
  "fst (first_run plain_reply) = Inr ()
   \<and> hd (new_calls empty_world (snd (first_run plain_reply))) =
       DownloadBlob (py_str ''historical-chat-object'') (py_str ''100.pkl'')
   \<and> set (List.map_filter blob_of_call (new_calls empty_world (snd (first_run plain_reply)))) =
       {(py_str ''historical-chat-object'', py_str ''100.pkl'')}
   \<and> StoreHistoricalChat (py_str ''dummy_metadata_chat'') history_after_first
        (py_str ''historical-chat-object'') (py_str ''100.pkl'')
        \<in> set (new_calls empty_world (snd (first_run plain_reply)))
   \<and> gcs (snd (first_run plain_reply)) (py_str ''historical-chat-object'', py_str ''100.pkl'') =
       Some (toy_dumps (conversation_record (py_str ''dummy_metadata_chat'') history_after_first))
   \<and> gcs (snd (first_run plain_reply))
        (download_blob HISTORICAL_CHAT_BUCKET_NAME
           (historical_chat_blob_name (Some (py_str ''100'')))) \<noteq> None"
proof -
  have ok: "fst (first_run plain_reply) = Inr ()"
    by (simp add: stub_defs)
  have run: "generate_response (stub_env plain_reply) empty_world (Some (py_str ''100''))
      (Some (py_str ''100'')) (Some (py_str ''U1'')) (Some (py_str ''C1'')) (Some (py_str ''hello''))
      = (fst (first_run plain_reply), snd (first_run plain_reply))"
    by (simp add: first_run_is_run)
  note res = blob_named_by_thread[OF run]
  from res have 1: "hd (new_calls empty_world (snd (first_run plain_reply))) =
       DownloadBlob (py_str ''historical-chat-object'') (py_str ''100.pkl'')"
    by (simp add: HISTORICAL_CHAT_BUCKET_NAME_def py_format_def py_str_def)
  from res have 2: "set (List.map_filter blob_of_call
        (new_calls empty_world (snd (first_run plain_reply)))) =
       {(py_str ''historical-chat-object'', py_str ''100.pkl'')}"
    by (simp add: HISTORICAL_CHAT_BUCKET_NAME_def py_format_def py_str_def)
  have 3: "StoreHistoricalChat (py_str ''dummy_metadata_chat'') history_after_first
        (py_str ''historical-chat-object'') (py_str ''100.pkl'')
        \<in> set (new_calls empty_world (snd (first_run plain_reply)))"
    by (simp add: stub_defs history_after_first_def)
  have 4: "gcs (snd (first_run plain_reply))
       (py_str ''historical-chat-object'', py_str ''100.pkl'') =
       Some (toy_dumps (conversation_record (py_str ''dummy_metadata_chat'') history_after_first))"
    by (simp add: stub_defs history_after_first_def)
  from res ok have 5: "gcs (snd (first_run plain_reply))
        (download_blob HISTORICAL_CHAT_BUCKET_NAME
           (historical_chat_blob_name (Some (py_str ''100'')))) \<noteq> None"
    by simp
  from ok 1 2 3 4 5 show ?thesis by (intro conjI)
qed

section \<open>The audit log\<close>




text \<open>
  The order of the events matters: when the second event of a thread is handled between
  the lookup and the answer of the first, both find no record and both run the audit
  branch. Without the second event in between, \<open>answer_new_thread\<close> after \<open>lookup_world\<close> is
  the handler itself (\<open>handler_splits_at_lookup\<close>).
\<close>

lemma overlapping_events_audit_twice:
  "gcs empty_world
      (HISTORICAL_CHAT_BUCKET_NAME, historical_chat_blob_name (conversation_thread first_event)) = None
   \<and> conversation_thread second_event = conversation_thread first_event
   \<and> fst (handle_overlapped (stub_env plain_reply) first_event
            (stub_env plain_reply) second_event empty_world) = Inr ()
   \<and> filter is_audit_call (calls (snd (handle_overlapped (stub_env plain_reply) first_event
            (stub_env plain_reply) second_event empty_world))) =
       [GetKeyword (Some (py_str ''follow-up'')),
        SendLog (Some (py_str ''U1'')) (Some (py_str ''follow-up'')) (py_str ''Hi there'')
          (py_str ''greeting''),
        GetKeyword (Some (py_str ''hello'')),
        SendLog (Some (py_str ''U1'')) (Some (py_str ''hello'')) (py_str ''Hi there'')
          (py_str ''greeting'')]
   \<and> length (cloud_log (snd (handle_overlapped (stub_env plain_reply) first_event
            (stub_env plain_reply) second_event empty_world))) = 2"
  by (simp add: handle_overlapped_def answer_new_thread_def lookup_world_def stub_defs)

section \<open>The event handler\<close>

text \<open>
  Claim C7. The handler runs the pipeline for the thread \<open>thread_ts\<close> when the event has
  one, and for the thread \<open>ts\<close> of the event itself otherwise; the blob it asks for first is
  named after that thread.
\<close>

theorem thread_is_thread_ts_or_ts:
  "handle_incoming_message env w payload =
     generate_response env w (dict_get payload ''ts'')
       (case dict_get payload ''thread_ts'' of
          Some thread_ts \<Rightarrow> Some thread_ts
        | None \<Rightarrow> dict_get payload ''ts'')
       (dict_get payload ''user'') (dict_get payload ''channel'') (dict_get payload ''text'')
   \<and> hd (new_calls w (snd (handle_incoming_message env w payload))) =
       DownloadBlob HISTORICAL_CHAT_BUCKET_NAME
         (py_format (case dict_get payload ''thread_ts'' of
                       Some thread_ts \<Rightarrow> Some thread_ts
                     | None \<Rightarrow> dict_get payload ''ts'') @ py_str ''.pkl'')"
proof -
  let ?ct = "case dict_get payload ''thread_ts'' of
          Some thread_ts \<Rightarrow> Some thread_ts
        | None \<Rightarrow> dict_get payload ''ts''"
  have ct: "conversation_thread payload = ?ct"
    by (simp add: conversation_thread_def Let_def split: option.splits)
  have eq: "handle_incoming_message env w payload =
     generate_response env w (dict_get payload ''ts'') ?ct
       (dict_get payload ''user'') (dict_get payload ''channel'') (dict_get payload ''text'')"
    by (simp add: handle_incoming_message_def Let_def ct)
  obtain r w' where run: "generate_response env w (dict_get payload ''ts'') ?ct
       (dict_get payload ''user'') (dict_get payload ''channel'') (dict_get payload ''text'') = (r, w')"
    by (cases "generate_response env w (dict_get payload ''ts'') ?ct
       (dict_get payload ''user'') (dict_get payload ''channel'') (dict_get payload ''text'')")
  from run have "hd (new_calls w w') =
      DownloadBlob HISTORICAL_CHAT_BUCKET_NAME (py_format ?ct @ py_str ''.pkl'')"
    by (cases rule: run_cases)
       (auto simp: new_calls_def historical_chat_blob_name_def dest!: loads_history_pre)
  with eq run show ?thesis by simp
qed

theorem thread_is_thread_ts_or_ts_witness:
  "handle_incoming_message (stub_env plain_reply) empty_world first_event =
     generate_response (stub_env plain_reply) empty_world (Some (py_str ''100''))
       (Some (py_str ''100'')) (Some (py_str ''U1'')) (Some (py_str ''C1''))
       (Some (py_str ''hello''))
   \<and> hd (new_calls empty_world (snd (handle_incoming_message (stub_env plain_reply) empty_world
        first_event))) =
       DownloadBlob (py_str ''historical-chat-object'') (py_str ''100.pkl'')
   \<and> handle_incoming_message (stub_env plain_reply) world_after_first second_event =
     generate_response (stub_env plain_reply) world_after_first (Some (py_str ''101''))
       (Some (py_str ''100'')) (Some (py_str ''U1'')) (Some (py_str ''C1''))
       (Some (py_str ''follow-up''))
   \<and> hd (new_calls world_after_first (snd (handle_incoming_message (stub_env plain_reply)
        world_after_first second_event))) =
       DownloadBlob (py_str ''historical-chat-object'') (py_str ''100.pkl'')"
proof -
  note defs = first_event_def second_event_def dict_get_def HISTORICAL_CHAT_BUCKET_NAME_def
    py_format_def py_str_def
  note a = thread_is_thread_ts_or_ts[of "stub_env plain_reply" empty_world first_event]
  note b = thread_is_thread_ts_or_ts[of "stub_env plain_reply" world_after_first second_event]
  from a[THEN conjunct1] have a1: "handle_incoming_message (stub_env plain_reply) empty_world first_event =
     generate_response (stub_env plain_reply) empty_world (Some (py_str ''100''))
       (Some (py_str ''100'')) (Some (py_str ''U1'')) (Some (py_str ''C1''))
       (Some (py_str ''hello''))"
    by (simp add: defs)
  from a[THEN conjunct2] have a2: "hd (new_calls empty_world (snd (handle_incoming_message (stub_env plain_reply)
        empty_world first_event))) =
       DownloadBlob (py_str ''historical-chat-object'') (py_str ''100.pkl'')"
    by (simp add: defs)
  from b[THEN conjunct1] have b1: "handle_incoming_message (stub_env plain_reply) world_after_first second_event =
     generate_response (stub_env plain_reply) world_after_first (Some (py_str ''101''))
       (Some (py_str ''100'')) (Some (py_str ''U1'')) (Some (py_str ''C1''))
       (Some (py_str ''follow-up''))"
    by (simp add: defs)
  from b[THEN conjunct2] have b2: "hd (new_calls world_after_first (snd (handle_incoming_message
        (stub_env plain_reply) world_after_first second_event))) =
       DownloadBlob (py_str ''historical-chat-object'') (py_str ''100.pkl'')"
    by (simp add: defs)
  from a1 a2 b1 b2 show ?thesis by (intro conjI)
qed

text \<open>
  Claim C10. Whatever the event carries as user and channel, even nothing at all, when no
  call raises and the record of the thread, if any, can be read, the handler sends the
  text to the chat model, posts an answer to the channel of the event and stores the
  history: nothing in the handler looks at the sender.
\<close>

theorem no_filter_on_sender:
  assumes quiet: "\<forall>c. \<not> raises env c"
      and readable:
        "gcs w (HISTORICAL_CHAT_BUCKET_NAME,
                historical_chat_blob_name (conversation_thread payload)) = None \<or>
         (\<exists>md h. gcs w (HISTORICAL_CHAT_BUCKET_NAME,
                         historical_chat_blob_name (conversation_thread payload)) =
                    Some (pickle_dumps env (conversation_record md h)) \<and>
                  pickle_loads env (pickle_dumps env (conversation_record md h)) =
                    Inr (conversation_record md h))"
      and run: "handle_incoming_message env w payload = (r, w')"
  shows "r = Inr ()
         \<and> (\<exists>h. SendMessage (start_chat env RESPONSE_STYLE h) (dict_get payload ''text'')
                  \<in> set (new_calls w w'))
         \<and> (\<exists>t. ChatPostMessage (dict_get payload ''channel'') (dict_get payload ''ts'') t
                    \<in> set (new_calls w w') \<and>
                  slack w' = slack w @
                    [\<lparr>msg_channel = dict_get payload ''channel'',
                      msg_thread_ts = dict_get payload ''ts'', msg_text = t\<rparr>])
         \<and> gcs w' (HISTORICAL_CHAT_BUCKET_NAME,
                    historical_chat_blob_name (conversation_thread payload)) \<noteq> None"
proof -
  from run have "generate_response env w (dict_get payload ''ts'') (conversation_thread payload)
      (dict_get payload ''user'') (dict_get payload ''channel'') (dict_get payload ''text'') = (r, w')"
    by (simp add: handle_incoming_message_def Let_def)
  then show ?thesis
    by (cases rule: run_cases) (use quiet readable in \<open>auto simp: new_calls_def\<close>)
qed

theorem no_filter_on_sender_witness:
  "(\<forall>c. \<not> raises (stub_env plain_reply) c)
   \<and> gcs empty_world
        (HISTORICAL_CHAT_BUCKET_NAME, historical_chat_blob_name (conversation_thread Map.empty)) = None
   \<and> dict_get Map.empty ''user'' = None
   \<and> dict_get Map.empty ''channel'' = None
   \<and> fst (handle_incoming_message (stub_env plain_reply) empty_world Map.empty) = Inr ()
   \<and> SendMessage \<lparr>chat_context = [], chat_examples = [], message_history = PyList []\<rparr> None
        \<in> set (new_calls empty_world
              (snd (handle_incoming_message (stub_env plain_reply) empty_world Map.empty)))
   \<and> slack (snd (handle_incoming_message (stub_env plain_reply) empty_world Map.empty)) =
       [\<lparr>msg_channel = None, msg_thread_ts = None, msg_text = py_str ''Hi there''\<rparr>]
   \<and> gcs (snd (handle_incoming_message (stub_env plain_reply) empty_world Map.empty))
        (py_str ''historical-chat-object'', py_str ''None.pkl'') \<noteq> None"
proof -
  let ?run = "handle_incoming_message (stub_env plain_reply) empty_world Map.empty"
  have quiet: "\<forall>c. \<not> raises (stub_env plain_reply) c"
    by (simp add: stub_env_def)
  have fresh: "gcs empty_world
        (HISTORICAL_CHAT_BUCKET_NAME, historical_chat_blob_name (conversation_thread Map.empty)) = None"
    by (simp add: empty_world_def)
  have run: "?run = (fst ?run, snd ?run)" by simp
  have u: "dict_get Map.empty ''user'' = None" and ch: "dict_get Map.empty ''channel'' = None"
    by (simp_all add: dict_get_def)
  have sent: "SendMessage \<lparr>chat_context = [], chat_examples = [], message_history = PyList []\<rparr>
      None \<in> set (new_calls empty_world (snd ?run))"
    by (simp add: stub_defs)
  have posted: "slack (snd ?run) =
       [\<lparr>msg_channel = None, msg_thread_ts = None, msg_text = py_str ''Hi there''\<rparr>]"
    by (simp add: stub_defs)
  note res = no_filter_on_sender[OF quiet disjI1[OF fresh] run]
  from res have 1: "fst ?run = Inr ()" by simp
  from res have 2: "gcs (snd ?run) (py_str ''historical-chat-object'', py_str ''None.pkl'') \<noteq> None"
    by (simp add: HISTORICAL_CHAT_BUCKET_NAME_def historical_chat_blob_name_def
          conversation_thread_def dict_get_def py_format_def py_str_def)
  from quiet fresh u ch 1 sent posted 2 show ?thesis by (intro conjI)
qed

section \<open>Failures\<close>

text \<open>
  Claim C9. When a call of a run raises, the run ends with that exception, the raising
  call is the last one made and is made once, and what earlier calls did stays: the posted
  messages are still there; when the save raises, the answer has been posted and neither
  the store nor the log has changed; when a call of the audit branch raises, the answer
  has been posted and the record stored.
\<close>

theorem failure_aborts_without_rollback:
  assumes run: "generate_response env w ts ct u ch p = (r, w')"
      and c: "c \<in> set (new_calls w w')"
      and raised: "raises env c"
  shows "r = Inl (Raised c) \<and> last (new_calls w w') = c \<and> count_list (new_calls w w') c = 1
         \<and> take (length (slack w)) (slack w') = slack w
         \<and> (is_store_call c \<longrightarrow>
              (\<exists>t. slack w' = slack w @ [\<lparr>msg_channel = ch, msg_thread_ts = ts, msg_text = t\<rparr>])
              \<and> gcs w' = gcs w \<and> cloud_log w' = cloud_log w)
         \<and> (is_audit_call c \<longrightarrow>
              (\<exists>t. slack w' = slack w @ [\<lparr>msg_channel = ch, msg_thread_ts = ts, msg_text = t\<rparr>])
              \<and> gcs w' (HISTORICAL_CHAT_BUCKET_NAME, historical_chat_blob_name ct) \<noteq> None
              \<and> cloud_log w' = cloud_log w)"
  using run
proof (cases rule: run_cases)
  case (raised4 pre h c4)
  with c raised loads_history_quiet[OF raised4(1), of c] loads_history_pre[OF raised4(1)]
  show ?thesis by (auto simp: new_calls_def)
next
  case (raised5 pre h c4 t c5)
  with c raised loads_history_quiet[OF raised5(1), of c] loads_history_pre[OF raised5(1)]
  show ?thesis by (auto simp: new_calls_def)
next
  case (raised6 pre h c4 t c5 h' c6)
  with c raised loads_history_quiet[OF raised6(1), of c] loads_history_pre[OF raised6(1)]
  show ?thesis by (auto simp: new_calls_def)
next
  case (raised7 pre h c4 t c5 h' c6 c7)
  with c raised loads_history_quiet[OF raised7(1), of c] loads_history_pre[OF raised7(1)]
  show ?thesis by (auto simp: new_calls_def)
next
  case (raised8 pre h c4 t c5 h' c6 c7 c8)
  with c raised loads_history_quiet[OF raised8(1), of c] loads_history_pre[OF raised8(1)]
  show ?thesis by (auto simp: new_calls_def)
next
  case (logged pre h c4 t c5 h' c6 c7 c8)
  with c raised loads_history_quiet[OF logged(1), of c]
  show ?thesis by (auto simp: new_calls_def)
next
  case (answered pre h c4 t c5 h' c6)
  with c raised loads_history_quiet[OF answered(1), of c]
  show ?thesis by (auto simp: new_calls_def)
qed (use c raised in \<open>auto simp: new_calls_def\<close>)


theorem failure_aborts_without_rollback_witness:
  "StoreHistoricalChat (py_str ''dummy_metadata_chat'') history_after_first
      (py_str ''historical-chat-object'') (py_str ''100.pkl'')
     \<in> set (new_calls empty_world (snd (generate_response store_fails_env empty_world
           (Some (py_str ''100'')) (Some (py_str ''100'')) (Some (py_str ''U1''))
           (Some (py_str ''C1'')) (Some (py_str ''hello'')))))
   \<and> raises store_fails_env
        (StoreHistoricalChat (py_str ''dummy_metadata_chat'') history_after_first
           (py_str ''historical-chat-object'') (py_str ''100.pkl''))
   \<and> fst (generate_response store_fails_env empty_world
           (Some (py_str ''100'')) (Some (py_str ''100'')) (Some (py_str ''U1''))
           (Some (py_str ''C1'')) (Some (py_str ''hello''))) =
       Inl (Raised (StoreHistoricalChat (py_str ''dummy_metadata_chat'') history_after_first
           (py_str ''historical-chat-object'') (py_str ''100.pkl'')))
   \<and> last (new_calls empty_world (snd (generate_response store_fails_env empty_world
           (Some (py_str ''100'')) (Some (py_str ''100'')) (Some (py_str ''U1''))
           (Some (py_str ''C1'')) (Some (py_str ''hello''))))) =
       StoreHistoricalChat (py_str ''dummy_metadata_chat'') history_after_first
           (py_str ''historical-chat-object'') (py_str ''100.pkl'')
   \<and> slack (snd (generate_response store_fails_env empty_world
           (Some (py_str ''100'')) (Some (py_str ''100'')) (Some (py_str ''U1''))
           (Some (py_str ''C1'')) (Some (py_str ''hello'')))) =
       [\<lparr>msg_channel = Some (py_str ''C1''), msg_thread_ts = Some (py_str ''100''),
         msg_text = py_str ''Hi there''\<rparr>]
   \<and> gcs (snd (generate_response store_fails_env empty_world
           (Some (py_str ''100'')) (Some (py_str ''100'')) (Some (py_str ''U1''))
           (Some (py_str ''C1'')) (Some (py_str ''hello'')))) = gcs empty_world
   \<and> cloud_log (snd (generate_response store_fails_env empty_world
           (Some (py_str ''100'')) (Some (py_str ''100'')) (Some (py_str ''U1''))
           (Some (py_str ''C1'')) (Some (py_str ''hello'')))) = []"
proof -
  let ?run = "generate_response store_fails_env empty_world
           (Some (py_str ''100'')) (Some (py_str ''100'')) (Some (py_str ''U1''))
           (Some (py_str ''C1'')) (Some (py_str ''hello''))"
  let ?c = "StoreHistoricalChat (py_str ''dummy_metadata_chat'') history_after_first
      (py_str ''historical-chat-object'') (py_str ''100.pkl'')"
  have run: "?run = (fst ?run, snd ?run)" by simp
  have made: "?c \<in> set (new_calls empty_world (snd ?run))"
    by (simp add: store_fails_env_def history_after_first_def stub_defs)
  have raised: "raises store_fails_env ?c"
    by (simp add: store_fails_env_def)
  have posted: "slack (snd ?run) =
       [\<lparr>msg_channel = Some (py_str ''C1''), msg_thread_ts = Some (py_str ''100''),
         msg_text = py_str ''Hi there''\<rparr>]"
    by (simp add: store_fails_env_def stub_defs)
  note res = failure_aborts_without_rollback[OF run made raised]
  from res have 1: "fst ?run = Inl (Raised ?c)" by simp
  from res have 2: "last (new_calls empty_world (snd ?run)) = ?c" by simp
  from res have 3: "gcs (snd ?run) = gcs empty_world" by simp
  from res have 4: "cloud_log (snd ?run) = []" by (simp add: empty_world_def)
  from made raised 1 2 posted 3 4 show ?thesis by (intro conjI)
qed
end
